theory Spec2Isabelle
  imports Main "HOL-Library.Char_ord" "HOL-Library.List_Lexorder"
begin

section \<open>Python values, errors and the string operations the scripts use\<close>

text \<open>
  The scripts of the repository build and inspect documents made of Python values.
  The type below holds the JSON values: every value \<^verbatim>\<open>json.load\<close> returns and
  every value the generators hand to \<^verbatim>\<open>yaml.dump\<close> and \<^verbatim>\<open>json.dump\<close>.
  A mapping keeps its insertion order, so it is an association list; its keys are
  strings, as in JSON. A float is carried as mantissa and binary exponent; no script
  computes with one.
  \<^verbatim>\<open>yaml.safe_load\<close> returns these values for a file written in the JSON subset
  of YAML, and can return further ones (dates, byte strings, sets, tuples, keys that
  are not strings, a value that contains itself); those are outside this type, and
  every statement below about a loaded document is a statement about documents made
  of JSON values.
\<close>

datatype pyval =
    PNone
  | PBool bool
  | PInt int
  | PFloat int int
  | PStr string
  | PList "pyval list"
  | PDict "(string \<times> pyval) list"

text \<open>Exceptions are values: the classes the scripts can meet.\<close>

datatype py_error =
    TypeError
  | KeyError
  | AttributeError
  | ValueError
  | OSError
  | YAMLError
  | JSONDecodeError
  | RequestException
  | HTTPError

subsection \<open>Strings\<close>

text \<open>\<^verbatim>\<open>s.startswith(p)\<close>\<close>

fun startswith :: "string \<Rightarrow> string \<Rightarrow> bool" where
  "startswith s [] = True"
| "startswith [] (p # ps) = False"
| "startswith (c # cs) (p # ps) = (c = p \<and> startswith cs ps)"

text \<open>\<^verbatim>\<open>s.endswith(p)\<close>\<close>

definition endswith :: "string \<Rightarrow> string \<Rightarrow> bool" where
  "endswith s p = startswith (rev s) (rev p)"

text \<open>\<^verbatim>\<open>sub in s\<close> for two strings: \<open>sub\<close> occurs in \<open>s\<close>.\<close>

fun str_contains :: "string \<Rightarrow> string \<Rightarrow> bool" where
  "str_contains [] sub = (sub = [])"
| "str_contains (c # cs) sub = (startswith (c # cs) sub \<or> str_contains cs sub)"

text \<open>\<^verbatim>\<open>s.lower()\<close> and \<^verbatim>\<open>s.upper()\<close>, on ASCII letters.\<close>

definition char_lower :: "char \<Rightarrow> char" where
  "char_lower c =
     (if (65::nat) \<le> of_char c \<and> of_char c \<le> (90::nat)
      then char_of (of_char c + (32::nat)) else c)"


definition lower :: "string \<Rightarrow> string" where
  "lower s = map char_lower s"


text \<open>
  \<^verbatim>\<open>s.replace(old, new)\<close>: the occurrences of \<open>old\<close> are replaced from left to
  right, without overlap. With an empty \<open>old\<close> Python puts \<open>new\<close> before every
  character and at the end.
\<close>

function replace :: "string \<Rightarrow> string \<Rightarrow> string \<Rightarrow> string" where
  "replace [] old new = (if old = [] then new else [])"
| "replace (c # cs) old new =
     (if old = [] then new @ c # replace cs old new
      else if startswith (c # cs) old
        then new @ replace (drop (length old) (c # cs)) old new
      else c # replace cs old new)"
  by pat_completeness auto
termination
  by (relation "measure (\<lambda>(s, old, new). length s)") auto

text \<open>\<^verbatim>\<open>sep.join(xs)\<close>\<close>

fun join :: "string \<Rightarrow> string list \<Rightarrow> string" where
  "join sep [] = []"
| "join sep [x] = x"
| "join sep (x # y # ys) = x @ sep @ join sep (y # ys)"

subsection \<open>Mappings in insertion order\<close>

text \<open>
  \<^verbatim>\<open>d[k] = v\<close>: an existing key keeps its place and takes the new value, a new key
  goes to the end.
\<close>

fun dict_set :: "(string \<times> 'v) list \<Rightarrow> string \<Rightarrow> 'v \<Rightarrow> (string \<times> 'v) list" where
  "dict_set [] k v = [(k, v)]"
| "dict_set ((k', v') # kvs) k v =
     (if k' = k then (k, v) # kvs else (k', v') # dict_set kvs k v)"

text \<open>\<^verbatim>\<open>k in d\<close> and the lookup behind \<^verbatim>\<open>d[k]\<close> and \<^verbatim>\<open>d.get(k)\<close>.\<close>

fun dict_has :: "(string \<times> 'v) list \<Rightarrow> string \<Rightarrow> bool" where
  "dict_has [] k = False"
| "dict_has ((k', v') # kvs) k = (k' = k \<or> dict_has kvs k)"

fun dict_lookup :: "(string \<times> 'v) list \<Rightarrow> string \<Rightarrow> 'v option" where
  "dict_lookup [] k = None"
| "dict_lookup ((k', v') # kvs) k = (if k' = k then Some v' else dict_lookup kvs k)"

definition dict_keys :: "(string \<times> 'v) list \<Rightarrow> string list" where
  "dict_keys kvs = map fst kvs"

definition dict_values :: "(string \<times> 'v) list \<Rightarrow> 'v list" where
  "dict_values kvs = map snd kvs"

subsection \<open>Operations on values that can raise\<close>

text \<open>
  \<^verbatim>\<open>x in v\<close> for a string \<open>x\<close>: a key of a mapping, an element of a list, a
  substring of a string; any other value is not iterable.
\<close>

fun py_contains :: "pyval \<Rightarrow> string \<Rightarrow> py_error + bool" where
  "py_contains (PDict kvs) x = Inr (dict_has kvs x)"
| "py_contains (PList xs) x = Inr (PStr x \<in> set xs)"
| "py_contains (PStr s) x = Inr (str_contains s x)"
| "py_contains v x = Inl TypeError"

text \<open>\<^verbatim>\<open>v[k]\<close> for a string \<open>k\<close>: lists and strings take integer indices only.\<close>

fun py_getitem :: "pyval \<Rightarrow> string \<Rightarrow> py_error + pyval" where
  "py_getitem (PDict kvs) k =
     (case dict_lookup kvs k of None \<Rightarrow> Inl KeyError | Some v \<Rightarrow> Inr v)"
| "py_getitem v k = Inl TypeError"

text \<open>\<^verbatim>\<open>v.get(k, default)\<close>: only a mapping has the method.\<close>

fun py_get :: "pyval \<Rightarrow> string \<Rightarrow> pyval \<Rightarrow> py_error + pyval" where
  "py_get (PDict kvs) k d =
     (case dict_lookup kvs k of None \<Rightarrow> Inr d | Some v \<Rightarrow> Inr v)"
| "py_get v k d = Inl AttributeError"

text \<open>\<^verbatim>\<open>v.startswith(p)\<close>: only a string has the method.\<close>

fun py_startswith :: "pyval \<Rightarrow> string \<Rightarrow> py_error + bool" where
  "py_startswith (PStr s) p = Inr (startswith s p)"
| "py_startswith v p = Inl AttributeError"

text \<open>\<^verbatim>\<open>len(v)\<close>\<close>

fun py_len :: "pyval \<Rightarrow> py_error + nat" where
  "py_len (PDict kvs) = Inr (length kvs)"
| "py_len (PList xs) = Inr (length xs)"
| "py_len (PStr s) = Inr (length s)"
| "py_len v = Inl TypeError"

text \<open>\<^verbatim>\<open>v.values()\<close>: only a mapping has the method.\<close>

fun py_values :: "pyval \<Rightarrow> py_error + pyval list" where
  "py_values (PDict kvs) = Inr (dict_values kvs)"
| "py_values v = Inl AttributeError"

text \<open>Iterating a value: the elements of a list, the characters of a string, the keys of a mapping.\<close>

fun py_iter :: "pyval \<Rightarrow> py_error + pyval list" where
  "py_iter (PList xs) = Inr xs"
| "py_iter (PStr s) = Inr (map (\<lambda>c. PStr [c]) s)"
| "py_iter (PDict kvs) = Inr (map PStr (dict_keys kvs))"
| "py_iter v = Inl TypeError"

text \<open>A list or a mapping cannot be a member of a set.\<close>

fun hashable :: "pyval \<Rightarrow> bool" where
  "hashable (PList xs) = False"
| "hashable (PDict kvs) = False"
| "hashable v = True"

fun is_str :: "pyval \<Rightarrow> bool" where
  "is_str (PStr s) = True"
| "is_str v = False"

fun is_bool :: "pyval \<Rightarrow> bool" where
  "is_bool (PBool b) = True"
| "is_bool v = False"

fun is_dict :: "pyval \<Rightarrow> bool" where
  "is_dict (PDict kvs) = True"
| "is_dict v = False"

fun the_str :: "pyval \<Rightarrow> string" where
  "the_str (PStr s) = s"
| "the_str v = []"

section \<open>The validator (validate\_openapi.py)\<close>

text \<open>
  What the validator prints, one constructor for each \<^verbatim>\<open>print\<close> of
  \<^verbatim>\<open>validate_openapi_spec\<close>, with the values it formats into the line.
\<close>

datatype out =
    FileNotFound string
  | UnsupportedFormat string
  | MissingField string
  | UnsupportedVersion pyval
  | MissingInfoField string
  | SpecValid
  | Version pyval
  | Title pyval
  | ApiVersion pyval
  | PathsCount nat
  | SchemasCount nat
  | Tags string
  | YamlParsingError
  | JsonParsingError
  | ValidationError py_error

text \<open>
  The file as the validator sees it: the path it was given, what
  \<^verbatim>\<open>Path(file_path).exists()\<close> gives, the suffix of the path
  (\<^verbatim>\<open>Path(file_path).suffix\<close>), and what opening the file and parsing it gives
  under each of the two loaders, a document or the exception raised.
  \<^verbatim>\<open>Path.exists()\<close> returns a boolean or raises: it answers \<open>False\<close> when the
  file status cannot be read because there is no such file, and lets every other
  \<^verbatim>\<open>OSError\<close> out (a name that is too long, a directory that may not be searched).
\<close>

datatype load_result = Loaded pyval | Raised py_error

record file_input =
  file_path :: string
  path_exists :: "py_error + bool"
  path_suffix :: string
  yaml_safe_load :: load_result
  json_load :: load_result

text \<open>
  The two loops over required fields: the first field that is missing, if any. The
  membership test can raise.
\<close>

fun first_missing :: "pyval \<Rightarrow> string list \<Rightarrow> py_error + string option" where
  "first_missing spec [] = Inr None"
| "first_missing spec (field # more_fields) =
     (case py_contains spec field of
        Inl e \<Rightarrow> Inl e
      | Inr present \<Rightarrow>
          if \<not> present then Inr (Some field) else first_missing spec more_fields)"

text \<open>
  The second loop evaluates \<^verbatim>\<open>spec['info']\<close> again for each field.
\<close>

fun first_missing_info :: "pyval \<Rightarrow> string list \<Rightarrow> py_error + string option" where
  "first_missing_info spec [] = Inr None"
| "first_missing_info spec (field # more_fields) =
     (case py_getitem spec ''info'' of
        Inl e \<Rightarrow> Inl e
      | Inr info \<Rightarrow>
     (case py_contains info field of
        Inl e \<Rightarrow> Inl e
      | Inr present \<Rightarrow>
          if \<not> present then Inr (Some field) else first_missing_info spec more_fields))"

text \<open>
  \<^verbatim>\<open>tags.update(v)\<close>: every element of \<open>v\<close> is added to the set. The set is a list
  without repetition; its order is never observed, since the validator sorts it.
\<close>

definition set_update :: "pyval list \<Rightarrow> pyval \<Rightarrow> py_error + pyval list" where
  "set_update tags v =
     (case py_iter v of
        Inl e \<Rightarrow> Inl e
      | Inr xs \<Rightarrow>
          if list_all hashable xs then Inr (fold List.insert xs tags) else Inl TypeError)"

text \<open>The inner loop, over the operations of one path item.\<close>

fun collect_operations :: "pyval list \<Rightarrow> pyval list \<Rightarrow> py_error + pyval list" where
  "collect_operations tags [] = Inr tags"
| "collect_operations tags (operation # operations) =
     (if is_dict operation then
        (case py_contains operation ''tags'' of
           Inl e \<Rightarrow> Inl e
         | Inr has_tags \<Rightarrow>
             if has_tags then
               (case py_getitem operation ''tags'' of
                  Inl e \<Rightarrow> Inl e
                | Inr v \<Rightarrow>
               (case set_update tags v of
                  Inl e \<Rightarrow> Inl e
                | Inr tags' \<Rightarrow> collect_operations tags' operations))
             else collect_operations tags operations)
      else collect_operations tags operations)"

text \<open>The outer loop, over the path items.\<close>

fun collect_tags :: "pyval list \<Rightarrow> pyval list \<Rightarrow> py_error + pyval list" where
  "collect_tags tags [] = Inr tags"
| "collect_tags tags (path_obj # path_objs) =
     (case py_values path_obj of
        Inl e \<Rightarrow> Inl e
      | Inr operations \<Rightarrow>
     (case collect_operations tags operations of
        Inl e \<Rightarrow> Inl e
      | Inr tags' \<Rightarrow> collect_tags tags' path_objs))"

text \<open>
  \<^verbatim>\<open>', '.join(sorted(tags))\<close>: \<^verbatim>\<open>join\<close> raises TypeError on the first element
  that is not a string, if \<^verbatim>\<open>sorted\<close> has not raised it already when comparing.
\<close>

definition join_sorted :: "pyval list \<Rightarrow> py_error + string" where
  "join_sorted tags =
     (if list_all is_str tags then Inr (join '', '' (sort (map the_str tags)))
      else Inl TypeError)"

text \<open>
  The checks of the required fields, of the version and of the \<open>info\<close> section:
  the line of the first check that fails, if one does. The line for an unsupported
  version formats \<^verbatim>\<open>spec['openapi']\<close>, the value just tested.
\<close>

definition check_fields :: "pyval \<Rightarrow> py_error + out option" where
  "check_fields spec =
     (case first_missing spec [''openapi'', ''info'', ''paths''] of
        Inl e \<Rightarrow> Inl e
      | Inr (Some field) \<Rightarrow> Inr (Some (MissingField field))
      | Inr None \<Rightarrow>
     (case py_getitem spec ''openapi'' of
        Inl e \<Rightarrow> Inl e
      | Inr ver \<Rightarrow>
     (case py_startswith ver ''3.'' of
        Inl e \<Rightarrow> Inl e
      | Inr supported \<Rightarrow>
          if \<not> supported then Inr (Some (UnsupportedVersion ver))
          else
            (case first_missing_info spec [''title'', ''version''] of
               Inl e \<Rightarrow> Inl e
             | Inr (Some field) \<Rightarrow> Inr (Some (MissingInfoField field))
             | Inr None \<Rightarrow> Inr None))))"

text \<open>
  Counting: \<^verbatim>\<open>len(spec.get('paths', {}))\<close> and
  \<^verbatim>\<open>len(spec.get('components', {}).get('schemas', {}))\<close>.
\<close>

definition count_components :: "pyval \<Rightarrow> py_error + nat \<times> nat" where
  "count_components spec =
     (case py_get spec ''paths'' (PDict []) of
        Inl e \<Rightarrow> Inl e
      | Inr paths \<Rightarrow>
     (case py_len paths of
        Inl e \<Rightarrow> Inl e
      | Inr paths_count \<Rightarrow>
     (case py_get spec ''components'' (PDict []) of
        Inl e \<Rightarrow> Inl e
      | Inr components \<Rightarrow>
     (case py_get components ''schemas'' (PDict []) of
        Inl e \<Rightarrow> Inl e
      | Inr schemas \<Rightarrow>
     (case py_len schemas of
        Inl e \<Rightarrow> Inl e
      | Inr schemas_count \<Rightarrow> Inr (paths_count, schemas_count))))))"

text \<open>
  The six lines of the report. Each line is printed once its values are there: a
  subscript that raises leaves the lines before it printed.
\<close>

definition print_report :: "pyval \<Rightarrow> nat \<Rightarrow> nat \<Rightarrow> out list \<times> py_error option" where
  "print_report spec paths_count schemas_count =
     (case py_getitem spec ''openapi'' of
        Inl e \<Rightarrow> ([SpecValid], Some e)
      | Inr ver \<Rightarrow>
     (case py_getitem spec ''info'' of
        Inl e \<Rightarrow> ([SpecValid, Version ver], Some e)
      | Inr info \<Rightarrow>
     (case py_getitem info ''title'' of
        Inl e \<Rightarrow> ([SpecValid, Version ver], Some e)
      | Inr title \<Rightarrow>
     (case py_getitem info ''version'' of
        Inl e \<Rightarrow> ([SpecValid, Version ver, Title title], Some e)
      | Inr version \<Rightarrow>
          ([SpecValid, Version ver, Title title, ApiVersion version,
            PathsCount paths_count, SchemasCount schemas_count], None)))))"

text \<open>
  Listing the tags: the loops over \<^verbatim>\<open>spec['paths'].values()\<close>, the line with the
  sorted tags, and \<^verbatim>\<open>return True\<close>.
\<close>

definition list_tags :: "pyval \<Rightarrow> out list \<Rightarrow> out list \<times> (py_error + bool)" where
  "list_tags spec report =
     (case py_getitem spec ''paths'' of
        Inl e \<Rightarrow> (report, Inl e)
      | Inr paths \<Rightarrow>
     (case py_values paths of
        Inl e \<Rightarrow> (report, Inl e)
      | Inr path_objs \<Rightarrow>
     (case collect_tags [] path_objs of
        Inl e \<Rightarrow> (report, Inl e)
      | Inr tags \<Rightarrow>
     (case join_sorted tags of
        Inl e \<Rightarrow> (report, Inl e)
      | Inr line \<Rightarrow> (report @ [Tags line], Inr True)))))"

text \<open>
  The body of the \<^verbatim>\<open>try\<close> block once the document is loaded: the lines printed so
  far and the value returned or the exception raised.
\<close>

definition validate_loaded :: "pyval \<Rightarrow> out list \<times> (py_error + bool)" where
  "validate_loaded spec =
     (case check_fields spec of
        Inl e \<Rightarrow> ([], Inl e)
      | Inr (Some line) \<Rightarrow> ([line], Inr False)
      | Inr None \<Rightarrow>
     (case count_components spec of
        Inl e \<Rightarrow> ([], Inl e)
      | Inr (paths_count, schemas_count) \<Rightarrow>
     (case print_report spec paths_count schemas_count of
        (report, Some e) \<Rightarrow> (report, Inl e)
      | (report, None) \<Rightarrow> list_tags spec report)))"

text \<open>
  The \<^verbatim>\<open>try\<close> block: the loader is chosen by the lower-cased suffix; a loader that
  raises leaves the block at once.
\<close>

definition try_block :: "file_input \<Rightarrow> out list \<times> (py_error + bool)" where
  "try_block f =
     (if lower (path_suffix f) = ''.yaml'' \<or> lower (path_suffix f) = ''.yml'' then
        (case yaml_safe_load f of
           Raised e \<Rightarrow> ([], Inl e)
         | Loaded spec \<Rightarrow> validate_loaded spec)
      else if lower (path_suffix f) = ''.json'' then
        (case json_load f of
           Raised e \<Rightarrow> ([], Inl e)
         | Loaded spec \<Rightarrow> validate_loaded spec)
      else ([UnsupportedFormat (path_suffix f)], Inr False))"

text \<open>
  The three \<^verbatim>\<open>except\<close> clauses, in the order of the source: the YAML error, the
  JSON error, and then every other exception.
\<close>

fun handler :: "py_error \<Rightarrow> out" where
  "handler YAMLError = YamlParsingError"
| "handler JSONDecodeError = JsonParsingError"
| "handler e = ValidationError e"

text \<open>
  \<^verbatim>\<open>validate_openapi_spec\<close>: the lines printed and what the call gives its caller,
  the returned value (\<open>Inr\<close>) or an exception that leaves the function (\<open>Inl\<close>).
  The test of \<^verbatim>\<open>path.exists()\<close> and the line for a missing file stand before the
  \<^verbatim>\<open>try\<close> block, so an exception raised by the test meets no handler. Every
  \<^verbatim>\<open>print\<close> is taken to succeed.
\<close>

definition validate_openapi_spec :: "file_input \<Rightarrow> out list \<times> (py_error + bool)" where
  "validate_openapi_spec f =
     (case path_exists f of
        Inl e \<Rightarrow> ([], Inl e)
      | Inr found \<Rightarrow>
          if \<not> found then ([FileNotFound (file_path f)], Inr False)
          else
            (case try_block f of
               (outs, Inr b) \<Rightarrow> (outs, Inr b)
             | (outs, Inl e) \<Rightarrow> (outs @ [handler e], Inr False)))"

text \<open>The document the chosen loader returns, when it returns one.\<close>

definition loaded_document :: "file_input \<Rightarrow> pyval option" where
  "loaded_document f =
     (if lower (path_suffix f) = ''.yaml'' \<or> lower (path_suffix f) = ''.yml'' then
        (case yaml_safe_load f of Raised e \<Rightarrow> None | Loaded spec \<Rightarrow> Some spec)
      else if lower (path_suffix f) = ''.json'' then
        (case json_load f of Raised e \<Rightarrow> None | Loaded spec \<Rightarrow> Some spec)
      else None)"

subsection \<open>What the specification says of a document\<close>

text \<open>
  The four items the specification names: the document is a mapping with the key
  \<open>openapi\<close> holding a string that starts with \<open>3.\<close>, the key \<open>info\<close> holding a
  mapping with the keys \<open>title\<close> and \<open>version\<close>, and the key \<open>paths\<close>.
\<close>

fun has_required_items :: "pyval \<Rightarrow> bool" where
  "has_required_items (PDict kvs) =
     ((case dict_lookup kvs ''openapi'' of
         Some (PStr v) \<Rightarrow> startswith v ''3.''
       | _ \<Rightarrow> False) \<and>
      (case dict_lookup kvs ''info'' of
         Some (PDict info) \<Rightarrow> dict_has info ''title'' \<and> dict_has info ''version''
       | _ \<Rightarrow> False) \<and>
      dict_has kvs ''paths'')"
| "has_required_items v = False"

text \<open>
  What the report needs beyond the four items. An operation that is a mapping with
  the key \<open>tags\<close> must hold there a list of strings (or a string or a mapping, whose
  characters or keys are then the tags); a path item must be a mapping; \<open>paths\<close> must
  be a mapping of path items; \<open>components\<close>, when present, must be a mapping, and its
  \<open>schemas\<close>, when present, a value that has a length.
\<close>

fun tags_listable :: "pyval \<Rightarrow> bool" where
  "tags_listable (PDict kvs) =
     (case dict_lookup kvs ''tags'' of
        None \<Rightarrow> True
      | Some (PList xs) \<Rightarrow> list_all is_str xs
      | Some (PStr s) \<Rightarrow> True
      | Some (PDict d) \<Rightarrow> True
      | Some v \<Rightarrow> False)"
| "tags_listable v = True"

fun path_item_ok :: "pyval \<Rightarrow> bool" where
  "path_item_ok (PDict ops) = list_all tags_listable (dict_values ops)"
| "path_item_ok v = False"

fun sized :: "pyval \<Rightarrow> bool" where
  "sized (PDict kvs) = True"
| "sized (PList xs) = True"
| "sized (PStr s) = True"
| "sized v = False"

fun report_ok :: "pyval \<Rightarrow> bool" where
  "report_ok (PDict kvs) =
     ((case dict_lookup kvs ''paths'' of
         Some (PDict items) \<Rightarrow> list_all path_item_ok (dict_values items)
       | _ \<Rightarrow> False) \<and>
      (case dict_lookup kvs ''components'' of
         None \<Rightarrow> True
       | Some (PDict c) \<Rightarrow>
           (case dict_lookup c ''schemas'' of None \<Rightarrow> True | Some s \<Rightarrow> sized s)
       | Some v \<Rightarrow> False))"
| "report_ok v = False"

text \<open>The number of entries of a collection, and of \<open>components.schemas\<close> of a document.\<close>

fun entries :: "pyval \<Rightarrow> nat" where
  "entries (PDict kvs) = length kvs"
| "entries (PList xs) = length xs"
| "entries (PStr s) = length s"
| "entries v = 0"

definition schema_entries :: "(string \<times> pyval) list \<Rightarrow> nat" where
  "schema_entries kvs =
     (case dict_lookup kvs ''components'' of
        None \<Rightarrow> 0
      | Some (PDict c) \<Rightarrow>
          (case dict_lookup c ''schemas'' of None \<Rightarrow> 0 | Some s \<Rightarrow> entries s)
      | Some v \<Rightarrow> 0)"

text \<open>Documents and files used as concrete inputs below.\<close>

definition minimal_doc :: pyval where
  "minimal_doc =
     PDict [(''openapi'', PStr ''3.0.3''),
            (''info'', PDict [(''title'', PStr ''Mastodon API''), (''version'', PStr ''4.3.0'')]),
            (''paths'', PDict [(''/api/v1/instance'',
               PDict [(''get'', PDict [(''summary'', PStr ''Get instance''),
                                       (''tags'', PList [PStr ''instance''])])])]),
            (''components'', PDict [(''schemas'',
               PDict [(''Account'', PDict [(''type'', PStr ''object'')]),
                      (''Status'', PDict [(''type'', PStr ''object'')])])])]"


definition json_file :: "pyval \<Rightarrow> file_input" where
  "json_file doc =
     \<lparr>file_path = ''mastodon-openapi.json'', path_exists = Inr True, path_suffix = ''.json'',
      yaml_safe_load = Raised YAMLError, json_load = Loaded doc\<rparr>"

section \<open>The generators: shared data and steps\<close>

text \<open>
  The data classes of the three generator scripts. The field names carry a prefix,
  since a record field is a constant of the theory. \<open>prop_items_ref\<close> is a field of the
  comprehensive script's \<^verbatim>\<open>PropertyInfo\<close> only; the other two scripts never read
  it. It is annotated as an optional string, and the comprehensive script's table puts
  \<open>None\<close>, a string or a boolean there. The description of an entity and the summary and description of an endpoint are
  Python values: the hardcoded tables hold strings there, the scraping script stores
  whatever the front matter of the fetched file holds.
\<close>

record ParameterInfo =
  param_name :: string
  param_type :: string
  param_description :: string
  param_required :: bool
  param_location :: string

record ResponseInfo =
  resp_status_code :: string
  resp_description :: string
  resp_schema_ref :: "string option"

record EndpointInfo =
  ep_path :: string
  ep_method :: string
  ep_summary :: pyval
  ep_description :: pyval
  ep_parameters :: "ParameterInfo list"
  ep_responses :: "ResponseInfo list"
  ep_tags :: "string list"

datatype items_ref = No_ref | Ref string | Ref_bool bool

record PropertyInfo =
  prop_name :: string
  prop_type :: string
  prop_description :: string
  prop_required :: bool
  prop_nullable :: bool
  prop_format :: "string option"
  prop_items_ref :: items_ref

record EntityInfo =
  entity_name :: string
  entity_description :: pyval
  entity_properties :: "PropertyInfo list"

text \<open>The constructors with the defaults of the data classes.\<close>

definition new_ParameterInfo :: "string \<Rightarrow> string \<Rightarrow> string \<Rightarrow> ParameterInfo" where
  "new_ParameterInfo name type description =
     \<lparr>param_name = name, param_type = type, param_description = description,
      param_required = False, param_location = ''query''\<rparr>"

definition new_ResponseInfo :: "string \<Rightarrow> string \<Rightarrow> ResponseInfo" where
  "new_ResponseInfo status_code description =
     \<lparr>resp_status_code = status_code, resp_description = description,
      resp_schema_ref = None\<rparr>"

definition new_PropertyInfo :: "string \<Rightarrow> string \<Rightarrow> string \<Rightarrow> PropertyInfo" where
  "new_PropertyInfo name type description =
     \<lparr>prop_name = name, prop_type = type, prop_description = description,
      prop_required = True, prop_nullable = False, prop_format = None,
      prop_items_ref = No_ref\<rparr>"

text \<open>
  The state of a generator object: \<^verbatim>\<open>self.entities\<close>, a mapping from names to
  entities in insertion order, and \<^verbatim>\<open>self.endpoints\<close>.
\<close>

record generator =
  entities :: "(string \<times> EntityInfo) list"
  endpoints :: "EndpointInfo list"

definition init :: generator where
  "init = \<lparr>entities = [], endpoints = []\<rparr>"

subsection \<open>Nested subscripts\<close>

text \<open>
  \<^verbatim>\<open>spec[k1]...[kn]\<close>: each subscript needs a mapping that has the key.
\<close>

fun get_in :: "string list \<Rightarrow> pyval \<Rightarrow> py_error + pyval" where
  "get_in [] v = Inr v"
| "get_in (k # ks) v =
     (case py_getitem v k of Inl e \<Rightarrow> Inl e | Inr v' \<Rightarrow> get_in ks v')"

text \<open>
  \<^verbatim>\<open>spec[k1]...[kn][k] = x\<close>: the mapping reached by the subscripts is changed in
  place, so every mapping on the way keeps its keys and their order.
\<close>

fun set_in :: "string list \<Rightarrow> string \<Rightarrow> pyval \<Rightarrow> pyval \<Rightarrow> py_error + pyval" where
  "set_in [] k x (PDict kvs) = Inr (PDict (dict_set kvs k x))"
| "set_in (p # ps) k x (PDict kvs) =
     (case dict_lookup kvs p of
        None \<Rightarrow> Inl KeyError
      | Some d \<Rightarrow>
          (case set_in ps k x d of
             Inl e \<Rightarrow> Inl e
           | Inr d' \<Rightarrow> Inr (PDict (dict_set kvs p d'))))"
| "set_in ps k x v = Inl TypeError"

subsection \<open>Schemas for the entities\<close>

text \<open>
  The loop over the properties of one entity: \<^verbatim>\<open>properties[prop.name] = prop_schema\<close>
  and \<^verbatim>\<open>required_props.append(prop.name)\<close> for a property flagged required. The
  three scripts differ in how they build \<^verbatim>\<open>prop_schema\<close>.
\<close>

fun props_loop ::
  "(PropertyInfo \<Rightarrow> pyval) \<Rightarrow> PropertyInfo list \<Rightarrow> (string \<times> pyval) list \<times> string list
     \<Rightarrow> (string \<times> pyval) list \<times> string list" where
  "props_loop prop_schema [] acc = acc"
| "props_loop prop_schema (prop # props) (properties, required_props) =
     props_loop prop_schema props
       (dict_set properties (prop_name prop) (prop_schema prop),
        if prop_required prop then required_props @ [prop_name prop] else required_props)"

text \<open>
  One round of the loop over \<^verbatim>\<open>self.entities.items()\<close>: the schema is stored under
  \<^verbatim>\<open>spec["components"]["schemas"][entity_name]\<close>, and gets the key \<open>required\<close> when
  the list of required properties is not empty.
\<close>

definition add_entity ::
  "(PropertyInfo \<Rightarrow> pyval) \<Rightarrow> string \<Rightarrow> EntityInfo \<Rightarrow> pyval \<Rightarrow> py_error + pyval" where
  "add_entity prop_schema name entity spec =
     (case props_loop prop_schema (entity_properties entity) ([], []) of
        (properties, required_props) \<Rightarrow>
     (case set_in [''components'', ''schemas''] name
             (PDict [(''type'', PStr ''object''),
                     (''description'', entity_description entity),
                     (''properties'', PDict properties)]) spec of
        Inl e \<Rightarrow> Inl e
      | Inr spec' \<Rightarrow>
          if required_props \<noteq> []
          then set_in [''components'', ''schemas'', name] ''required''
                 (PList (map PStr required_props)) spec'
          else Inr spec'))"

fun add_entities ::
  "(PropertyInfo \<Rightarrow> pyval) \<Rightarrow> (string \<times> EntityInfo) list \<Rightarrow> pyval \<Rightarrow> py_error + pyval" where
  "add_entities prop_schema [] spec = Inr spec"
| "add_entities prop_schema ((name, entity) # rest) spec =
     (case add_entity prop_schema name entity spec of
        Inl e \<Rightarrow> Inl e
      | Inr spec' \<Rightarrow> add_entities prop_schema rest spec')"

subsection \<open>Paths for the endpoints\<close>

text \<open>The schema of one parameter.\<close>

definition param_schema :: "ParameterInfo \<Rightarrow> pyval" where
  "param_schema param =
     PDict [(''name'', PStr (param_name param)),
            (''in'', PStr (param_location param)),
            (''description'', PStr (param_description param)),
            (''required'', PBool (param_required param)),
            (''schema'', PDict [(''type'', PStr (param_type param))])]"

text \<open>
  The loop over the responses of an endpoint: \<^verbatim>\<open>responses[response.status_code] =
  resp_schema\<close>, where the schema has a \<open>content\<close> when the response names a schema.
\<close>

definition resp_schema :: "ResponseInfo \<Rightarrow> pyval" where
  "resp_schema response =
     (let schema = [(''description'', PStr (resp_description response))] in
      case resp_schema_ref response of
        None \<Rightarrow> PDict schema
      | Some ref \<Rightarrow>
          if ref \<noteq> []
          then PDict (dict_set schema ''content''
                 (PDict [(''application/json'',
                    PDict [(''schema'',
                      PDict [(''$ref'', PStr (''#/components/schemas/'' @ ref))])])]))
          else PDict schema)"

fun responses_loop :: "ResponseInfo list \<Rightarrow> (string \<times> pyval) list \<Rightarrow> (string \<times> pyval) list" where
  "responses_loop [] responses = responses"
| "responses_loop (response # rest) responses =
     responses_loop rest (dict_set responses (resp_status_code response) (resp_schema response))"

text \<open>
  One round of the loop over \<^verbatim>\<open>self.endpoints\<close>: the path gets an empty mapping
  when it is new, and the operation is stored under the method. The scripts differ in
  the path they use as key and in the operation they build.
\<close>

definition add_endpoint ::
  "(string \<Rightarrow> string) \<Rightarrow> (EndpointInfo \<Rightarrow> pyval) \<Rightarrow> EndpointInfo \<Rightarrow> pyval
     \<Rightarrow> py_error + pyval" where
  "add_endpoint to_openapi_path make_operation endpoint spec =
     (let openapi_path = to_openapi_path (ep_path endpoint) in
     (case get_in [''paths''] spec of
        Inl e \<Rightarrow> Inl e
      | Inr paths \<Rightarrow>
     (case py_contains paths openapi_path of
        Inl e \<Rightarrow> Inl e
      | Inr present \<Rightarrow>
     (case (if \<not> present then set_in [''paths''] openapi_path (PDict []) spec
            else Inr spec) of
        Inl e \<Rightarrow> Inl e
      | Inr spec' \<Rightarrow>
          set_in [''paths'', openapi_path] (ep_method endpoint)
            (make_operation endpoint) spec'))))"

fun add_endpoints ::
  "(string \<Rightarrow> string) \<Rightarrow> (EndpointInfo \<Rightarrow> pyval) \<Rightarrow> EndpointInfo list \<Rightarrow> pyval
     \<Rightarrow> py_error + pyval" where
  "add_endpoints to_openapi_path make_operation [] spec = Inr spec"
| "add_endpoints to_openapi_path make_operation (endpoint # rest) spec =
     (case add_endpoint to_openapi_path make_operation endpoint spec of
        Inl e \<Rightarrow> Inl e
      | Inr spec' \<Rightarrow> add_endpoints to_openapi_path make_operation rest spec')"

text \<open>
  \<^verbatim>\<open>generate_openapi_spec\<close>, from the literal the script starts with: first the
  entities, then the endpoints.
\<close>

definition generate_from ::
  "pyval \<Rightarrow> (PropertyInfo \<Rightarrow> pyval) \<Rightarrow> (string \<Rightarrow> string) \<Rightarrow> (EndpointInfo \<Rightarrow> pyval)
     \<Rightarrow> generator \<Rightarrow> py_error + pyval" where
  "generate_from literal prop_schema to_openapi_path make_operation g =
     (case add_entities prop_schema (entities g) literal of
        Inl e \<Rightarrow> Inl e
      | Inr spec \<Rightarrow> add_endpoints to_openapi_path make_operation (endpoints g) spec)"

section \<open>The sample generator (generate\_sample\_openapi.py)\<close>

subsection \<open>The tables\<close>

definition SAMPLE_ENTITIES :: "string list" where
  \<open>SAMPLE_ENTITIES =
     [''Account'',
      ''Status'',
      ''CustomEmoji'',
      ''Field'',
      ''MediaAttachment'',
      ''Notification'',
      ''Poll'',
      ''Relationship'',
      ''Tag'',
      ''Application'',
      ''Context'',
      ''Conversation'',
      ''Error'',
      ''Instance'',
      ''List'',
      ''Marker'',
      ''Preferences'',
      ''PreviewCard'',
      ''Report'',
      ''Rule'',
      ''Token'',
      ''Translation'']\<close>

definition SAMPLE_ENDPOINTS :: "(string \<times> string \<times> string \<times> string \<times> string) list" where
  \<open>SAMPLE_ENDPOINTS =
     [(''accounts'', ''GET'', ''/api/v1/accounts/:id'', ''Get account'', ''Retrieve information about an account''),
      (''accounts'', ''POST'', ''/api/v1/accounts'', ''Create account'', ''Register a new account''),
      (''accounts'', ''PATCH'', ''/api/v1/accounts/update_credentials'', ''Update account'', ''Update user credentials''),
      (''statuses'', ''GET'', ''/api/v1/statuses/:id'', ''Get status'', ''Retrieve a status''),
      (''statuses'', ''POST'', ''/api/v1/statuses'', ''Create status'', ''Publish a new status''),
      (''statuses'', ''DELETE'', ''/api/v1/statuses/:id'', ''Delete status'', ''Delete a status''),
      (''timelines'', ''GET'', ''/api/v1/timelines/home'', ''Home timeline'', ''Get home timeline''),
      (''timelines'', ''GET'', ''/api/v1/timelines/public'', ''Public timeline'', ''Get public timeline''),
      (''notifications'', ''GET'', ''/api/v1/notifications'', ''Get notifications'', ''Retrieve notifications''),
      (''follow_requests'', ''GET'', ''/api/v1/follow_requests'', ''Get follow requests'', ''Retrieve follow requests''),
      (''follow_requests'', ''POST'', ''/api/v1/follow_requests/:id/authorize'', ''Accept follow request'', ''Accept a follow request''),
      (''follow_requests'', ''POST'', ''/api/v1/follow_requests/:id/reject'', ''Reject follow request'', ''Reject a follow request''),
      (''media'', ''POST'', ''/api/v1/media'', ''Upload media'', ''Upload a media attachment''),
      (''polls'', ''GET'', ''/api/v1/polls/:id'', ''Get poll'', ''Retrieve a poll''),
      (''polls'', ''POST'', ''/api/v1/polls/:id/votes'', ''Vote in poll'', ''Vote in a poll''),
      (''search'', ''GET'', ''/api/v2/search'', ''Search'', ''Search for content''),
      (''instance'', ''GET'', ''/api/v1/instance'', ''Get instance'', ''Get instance information''),
      (''apps'', ''POST'', ''/api/v1/apps'', ''Create app'', ''Create a new application''),
      (''oauth'', ''POST'', ''/oauth/token'', ''Get token'', ''Obtain an access token''),
      (''streaming'', ''GET'', ''/api/v1/streaming/user'', ''User stream'', ''Stream user events'')]\<close>

definition sample_account :: EntityInfo where
  \<open>sample_account =
     \<lparr>entity_name = ''Account'',
      entity_description = PStr ''Represents a user of Mastodon and their associated profile.'',
      entity_properties =
        [new_PropertyInfo ''id'' ''string'' ''The account id'',
         new_PropertyInfo ''username'' ''string'' ''The username of the account, not including domain'',
         new_PropertyInfo ''acct'' ''string'' ''The Webfinger account URI'',
         new_PropertyInfo ''display_name'' ''string'' ''The profile\'s display name'',
         new_PropertyInfo ''locked'' ''boolean'' ''Whether the account manually approves follow requests'',
         new_PropertyInfo ''bot'' ''boolean'' ''Whether the account may perform automated actions'',
         (new_PropertyInfo ''discoverable'' ''boolean'' ''Whether the account has opted into discovery features'')\<lparr>prop_required := False, prop_nullable := True\<rparr>,
         (new_PropertyInfo ''group'' ''boolean'' ''Whether the account represents a Group actor'')\<lparr>prop_required := False\<rparr>,
         (new_PropertyInfo ''created_at'' ''string'' ''When the account was created'')\<lparr>prop_format := Some ''date-time''\<rparr>,
         new_PropertyInfo ''note'' ''string'' ''The profile\'s bio / description'',
         (new_PropertyInfo ''url'' ''string'' ''The location of the user\'s profile page'')\<lparr>prop_format := Some ''uri''\<rparr>,
         (new_PropertyInfo ''avatar'' ''string'' ''An image icon that is shown next to statuses and in the profile'')\<lparr>prop_format := Some ''uri''\<rparr>,
         (new_PropertyInfo ''avatar_static'' ''string'' ''A static version of the avatar'')\<lparr>prop_format := Some ''uri''\<rparr>,
         (new_PropertyInfo ''header'' ''string'' ''An image banner that is shown above the profile'')\<lparr>prop_format := Some ''uri''\<rparr>,
         (new_PropertyInfo ''header_static'' ''string'' ''A static version of the header'')\<lparr>prop_format := Some ''uri''\<rparr>,
         new_PropertyInfo ''followers_count'' ''integer'' ''The reported followers of this profile'',
         new_PropertyInfo ''following_count'' ''integer'' ''The reported follows of this profile'',
         new_PropertyInfo ''statuses_count'' ''integer'' ''How many statuses are attached to this account'',
         (new_PropertyInfo ''last_status_at'' ''string'' ''When the most recent status was posted'')\<lparr>prop_format := Some ''date'', prop_nullable := True\<rparr>,
         new_PropertyInfo ''emojis'' ''array'' ''Custom emoji entities to be used when rendering the profile'',
         new_PropertyInfo ''fields'' ''array'' ''Additional metadata attached to a profile as name-value pairs'']\<rparr>\<close>

definition sample_status :: EntityInfo where
  \<open>sample_status =
     \<lparr>entity_name = ''Status'',
      entity_description = PStr ''Represents a status posted by an account.'',
      entity_properties =
        [new_PropertyInfo ''id'' ''string'' ''ID of the status in the database'',
         (new_PropertyInfo ''uri'' ''string'' ''URI of the status used for federation'')\<lparr>prop_format := Some ''uri''\<rparr>,
         (new_PropertyInfo ''created_at'' ''string'' ''The date when this status was created'')\<lparr>prop_format := Some ''date-time''\<rparr>,
         new_PropertyInfo ''account'' ''object'' ''The account that authored this status'',
         new_PropertyInfo ''content'' ''string'' ''HTML-encoded status content'',
         new_PropertyInfo ''visibility'' ''string'' ''Visibility of this status'',
         new_PropertyInfo ''sensitive'' ''boolean'' ''Is this status marked as sensitive content?'',
         new_PropertyInfo ''spoiler_text'' ''string'' ''Subject or summary line, below which status content is collapsed'',
         new_PropertyInfo ''media_attachments'' ''array'' ''Media that is attached to this status'',
         (new_PropertyInfo ''application'' ''object'' ''The application used to post this status'')\<lparr>prop_nullable := True\<rparr>,
         new_PropertyInfo ''mentions'' ''array'' ''Mentions of users within the status content'',
         new_PropertyInfo ''tags'' ''array'' ''Hashtags used within the status content'',
         new_PropertyInfo ''emojis'' ''array'' ''Custom emoji to be used when rendering status content'',
         new_PropertyInfo ''reblogs_count'' ''integer'' ''How many boosts this status has received'',
         new_PropertyInfo ''favourites_count'' ''integer'' ''How many favourites this status has received'',
         new_PropertyInfo ''replies_count'' ''integer'' ''How many replies this status has received'',
         (new_PropertyInfo ''url'' ''string'' ''A link to the status\'s HTML representation'')\<lparr>prop_format := Some ''uri'', prop_nullable := True\<rparr>,
         (new_PropertyInfo ''in_reply_to_id'' ''string'' ''ID of the status being replied to'')\<lparr>prop_nullable := True\<rparr>,
         (new_PropertyInfo ''in_reply_to_account_id'' ''string'' ''ID of the account being replied to'')\<lparr>prop_nullable := True\<rparr>,
         (new_PropertyInfo ''reblog'' ''object'' ''The status being reblogged'')\<lparr>prop_nullable := True\<rparr>,
         (new_PropertyInfo ''poll'' ''object'' ''The poll attached to the status'')\<lparr>prop_nullable := True\<rparr>,
         (new_PropertyInfo ''card'' ''object'' ''Preview card for links included within status content'')\<lparr>prop_nullable := True\<rparr>,
         (new_PropertyInfo ''language'' ''string'' ''Primary language of this status'')\<lparr>prop_nullable := True\<rparr>,
         (new_PropertyInfo ''text'' ''string'' ''Plain-text source of a status'')\<lparr>prop_nullable := True\<rparr>,
         (new_PropertyInfo ''edited_at'' ''string'' ''Timestamp of when the status was last edited'')\<lparr>prop_format := Some ''date-time'', prop_nullable := True\<rparr>]\<rparr>\<close>

definition sample_media :: EntityInfo where
  \<open>sample_media =
     \<lparr>entity_name = ''MediaAttachment'',
      entity_description = PStr ''Represents a file or media attachment that can be added to a status.'',
      entity_properties =
        [new_PropertyInfo ''id'' ''string'' ''The ID of the attachment in the database'',
         new_PropertyInfo ''type'' ''string'' ''The type of the attachment'',
         (new_PropertyInfo ''url'' ''string'' ''The location of the original full-size attachment'')\<lparr>prop_format := Some ''uri''\<rparr>,
         (new_PropertyInfo ''preview_url'' ''string'' ''The location of a scaled-down preview of the attachment'')\<lparr>prop_format := Some ''uri''\<rparr>,
         (new_PropertyInfo ''remote_url'' ''string'' ''The location of the full-size original attachment on the remote website'')\<lparr>prop_format := Some ''uri'', prop_nullable := True\<rparr>,
         (new_PropertyInfo ''description'' ''string'' ''Alternate text that describes what is in the media attachment'')\<lparr>prop_nullable := True\<rparr>,
         (new_PropertyInfo ''blurhash'' ''string'' ''A hash computed by the BlurHash algorithm'')\<lparr>prop_nullable := True\<rparr>,
         (new_PropertyInfo ''meta'' ''object'' ''Metadata returned by Paperclip'')\<lparr>prop_required := False\<rparr>]\<rparr>\<close>

definition sample_error :: EntityInfo where
  \<open>sample_error =
     \<lparr>entity_name = ''Error'',
      entity_description = PStr ''Represents an error.'',
      entity_properties =
        [new_PropertyInfo ''error'' ''string'' ''The error message'',
         (new_PropertyInfo ''error_description'' ''string'' ''A longer description of the error'')\<lparr>prop_required := False\<rparr>]\<rparr>\<close>


text \<open>
  The entities the loop over the seven names builds: the description and the single
  property are formatted with the lower-cased name.
\<close>

definition basic_entity :: "string \<Rightarrow> EntityInfo" where
  "basic_entity name =
     \<lparr>entity_name = name,
      entity_description = PStr (''Represents a '' @ lower name @ ''.''),
      entity_properties =
        [new_PropertyInfo ''id'' ''string'' (''The '' @ lower name @ '' id'')]\<rparr>"

text \<open>\<^verbatim>\<open>self.entities[name] = entity\<close>\<close>

definition set_entity :: "string \<Rightarrow> EntityInfo \<Rightarrow> generator \<Rightarrow> generator" where
  "set_entity name entity g = g\<lparr>entities := dict_set (entities g) name entity\<rparr>"

definition create_sample_entities :: "generator \<Rightarrow> generator" where
  "create_sample_entities g =
     fold (\<lambda>name. set_entity name (basic_entity name))
       [''CustomEmoji'', ''Field'', ''Notification'', ''Poll'', ''Tag'', ''Application'', ''Token'']
       (set_entity ''Error'' sample_error
         (set_entity ''MediaAttachment'' sample_media
           (set_entity ''Status'' sample_status
             (set_entity ''Account'' sample_account g))))"

text \<open>
  The endpoint built from one row of \<^verbatim>\<open>SAMPLE_ENDPOINTS\<close>: the path parameter, the
  paging parameters of the timeline and notification lists, the success response by
  method and path, and the three error responses.
\<close>

definition paging_parameters :: "string \<Rightarrow> ParameterInfo list" where
  "paging_parameters limit_description =
     [new_ParameterInfo ''max_id'' ''string'' ''Return results older than this ID'',
      new_ParameterInfo ''since_id'' ''string'' ''Return results newer than this ID'',
      new_ParameterInfo ''min_id'' ''string'' ''Return results immediately newer than this ID'',
      new_ParameterInfo ''limit'' ''integer'' limit_description]"

definition error_responses :: "ResponseInfo list" where
  "error_responses =
     [(new_ResponseInfo ''401'' ''Unauthorized'')\<lparr>resp_schema_ref := Some ''Error''\<rparr>,
      (new_ResponseInfo ''404'' ''Not found'')\<lparr>resp_schema_ref := Some ''Error''\<rparr>,
      (new_ResponseInfo ''422'' ''Unprocessable entity'')\<lparr>resp_schema_ref := Some ''Error''\<rparr>]"

definition path_parameter :: "string \<Rightarrow> string \<Rightarrow> ParameterInfo" where
  "path_parameter name description =
     (new_ParameterInfo name ''string'' description)
       \<lparr>param_required := True, param_location := ''path''\<rparr>"

definition sample_success_responses :: "string \<Rightarrow> string \<Rightarrow> ResponseInfo list" where
  "sample_success_responses method path =
     (if method \<in> set [''GET''] then
        (if str_contains path ''accounts'' \<and> str_contains path '':id''
           then [(new_ResponseInfo ''200'' ''Success'')\<lparr>resp_schema_ref := Some ''Account''\<rparr>]
         else if str_contains path ''statuses'' \<and> str_contains path '':id''
           then [(new_ResponseInfo ''200'' ''Success'')\<lparr>resp_schema_ref := Some ''Status''\<rparr>]
         else if str_contains path ''timeline'' \<or> str_contains path ''notifications''
           then [new_ResponseInfo ''200'' ''Success'']
         else [new_ResponseInfo ''200'' ''Success''])
      else if method \<in> set [''POST'', ''PATCH''] then
        (if str_contains path ''accounts''
           then [(new_ResponseInfo ''200'' ''Success'')\<lparr>resp_schema_ref := Some ''Account''\<rparr>]
         else if str_contains path ''statuses''
           then [(new_ResponseInfo ''200'' ''Success'')\<lparr>resp_schema_ref := Some ''Status''\<rparr>]
         else [new_ResponseInfo ''200'' ''Success''])
      else if method = ''DELETE'' then [new_ResponseInfo ''200'' ''Success'']
      else [])"

definition sample_endpoint ::
  "string \<times> string \<times> string \<times> string \<times> string \<Rightarrow> EndpointInfo" where
  "sample_endpoint row =
     (case row of (tag, method, path, summary, description) \<Rightarrow>
        \<lparr>ep_path = path,
         ep_method = lower method,
         ep_summary = PStr summary,
         ep_description = PStr description,
         ep_parameters =
           (if str_contains path '':id''
            then [path_parameter ''id'' ''The ID of the resource''] else []) @
           (if method = ''GET'' \<and>
               (str_contains path ''timeline'' \<or> str_contains path ''notifications'')
            then paging_parameters ''Maximum number of results to return'' else []),
         ep_responses = sample_success_responses method path @ error_responses,
         ep_tags = [tag]\<rparr>)"

text \<open>\<^verbatim>\<open>self.endpoints.append(endpoint)\<close>\<close>

definition append_endpoint :: "EndpointInfo \<Rightarrow> generator \<Rightarrow> generator" where
  "append_endpoint endpoint g = g\<lparr>endpoints := endpoints g @ [endpoint]\<rparr>"

definition create_sample_endpoints :: "generator \<Rightarrow> generator" where
  "create_sample_endpoints g =
     fold (\<lambda>row. append_endpoint (sample_endpoint row)) SAMPLE_ENDPOINTS g"

subsection \<open>The specification object\<close>

text \<open>
  The literal \<^verbatim>\<open>generate_openapi_spec\<close> starts with; the scraping script starts
  with the same one.
\<close>

definition servers_literal :: pyval where
  "servers_literal =
     PList [PDict [(''url'', PStr ''https://{instance}''),
                   (''description'', PStr ''Mastodon instance''),
                   (''variables'', PDict [(''instance'',
                      PDict [(''default'', PStr ''mastodon.social''),
                             (''description'',
                              PStr ''The domain of your Mastodon instance'')])])]]"

definition info_literal :: "string \<Rightarrow> pyval" where
  "info_literal description =
     PDict [(''title'', PStr ''Mastodon API''),
            (''description'', PStr description),
            (''version'', PStr ''4.3.0''),
            (''contact'', PDict [(''name'', PStr ''Mastodon Project''),
                                 (''url'', PStr ''https://joinmastodon.org'')]),
            (''license'', PDict [(''name'', PStr ''AGPL-3.0''),
               (''url'', PStr ''https://github.com/mastodon/mastodon/blob/main/LICENSE'')])]"

definition sample_security_schemes :: pyval where
  "sample_security_schemes =
     PDict [(''OAuth2'',
               PDict [(''type'', PStr ''oauth2''),
                      (''flows'', PDict [(''authorizationCode'',
                         PDict [(''authorizationUrl'', PStr ''https://{instance}/oauth/authorize''),
                                (''tokenUrl'', PStr ''https://{instance}/oauth/token''),
                                (''scopes'', PDict [(''read'', PStr ''Read access''),
                                                    (''write'', PStr ''Write access''),
                                                    (''follow'', PStr ''Follow users''),
                                                    (''push'', PStr ''Push notifications'')])])])]),
            (''BearerAuth'',
               PDict [(''type'', PStr ''http''), (''scheme'', PStr ''bearer'')])]"

definition sample_literal :: pyval where
  "sample_literal =
     PDict [(''openapi'', PStr ''3.0.3''),
            (''info'', info_literal ''API for Mastodon, a decentralized social network''),
            (''servers'', servers_literal),
            (''paths'', PDict []),
            (''components'', PDict [(''schemas'', PDict []),
                                    (''securitySchemes'', sample_security_schemes)])]"

text \<open>
  The schema of one property. An array takes its \<open>items\<close> from the property's name;
  for an object the whole schema is replaced.
\<close>

definition schema_ref :: "string \<Rightarrow> pyval" where
  "schema_ref name = PDict [(''$ref'', PStr (''#/components/schemas/'' @ name))]"

definition base_prop_schema :: "PropertyInfo \<Rightarrow> (string \<times> pyval) list" where
  "base_prop_schema prop =
     (let schema = [(''type'', PStr (prop_type prop)),
                    (''description'', PStr (prop_description prop))];
          schema = (case prop_format prop of
                      None \<Rightarrow> schema
                    | Some f \<Rightarrow>
                        if f \<noteq> [] then dict_set schema ''format'' (PStr f) else schema)
      in if prop_nullable prop then dict_set schema ''nullable'' (PBool True) else schema)"

definition sample_prop_schema :: "PropertyInfo \<Rightarrow> pyval" where
  "sample_prop_schema prop =
     (let schema = base_prop_schema prop;
          schema =
            (if prop_type prop = ''array'' then
               (if prop_name prop = ''emojis''
                  then dict_set schema ''items'' (schema_ref ''CustomEmoji'')
                else if prop_name prop = ''fields''
                  then dict_set schema ''items'' (schema_ref ''Field'')
                else if prop_name prop = ''media_attachments''
                  then dict_set schema ''items'' (schema_ref ''MediaAttachment'')
                else if prop_name prop = ''tags''
                  then dict_set schema ''items'' (schema_ref ''Tag'')
                else dict_set schema ''items'' (PDict [(''type'', PStr ''string'')]))
             else schema)
      in if prop_type prop = ''object'' then
           (if prop_name prop = ''account'' then schema_ref ''Account''
            else if prop_name prop = ''application'' then schema_ref ''Application''
            else if prop_name prop = ''poll'' then schema_ref ''Poll''
            else if prop_name prop = ''reblog'' then schema_ref ''Status''
            else PDict [(''type'', PStr ''object'')])
         else PDict schema)"

text \<open>
  The operation of one endpoint: \<open>parameters\<close> only when there are some,
  \<open>security\<close> by the test of the source,
  \<^verbatim>\<open>not path.startswith("/oauth") and method != "get" or "timeline" in path\<close>.
\<close>

definition bearer_security :: pyval where
  "bearer_security = PList [PDict [(''BearerAuth'', PList [])]]"

definition operation_base :: "EndpointInfo \<Rightarrow> (string \<times> pyval) list" where
  "operation_base endpoint =
     (let parameters = map param_schema (ep_parameters endpoint);
          responses = responses_loop (ep_responses endpoint) [];
          operation = [(''summary'', ep_summary endpoint),
                       (''description'', ep_description endpoint),
                       (''tags'', PList (map PStr (ep_tags endpoint))),
                       (''responses'', PDict responses)]
      in if parameters \<noteq> [] then dict_set operation ''parameters'' (PList parameters)
         else operation)"

definition sample_operation :: "EndpointInfo \<Rightarrow> pyval" where
  "sample_operation endpoint =
     (let operation = operation_base endpoint
      in if (\<not> startswith (ep_path endpoint) ''/oauth'' \<and> ep_method endpoint \<noteq> ''get'')
            \<or> str_contains (ep_path endpoint) ''timeline''
         then PDict (dict_set operation ''security'' bearer_security)
         else PDict operation)"

definition sample_openapi_path :: "string \<Rightarrow> string" where
  "sample_openapi_path path = replace path '':id'' ''{id}''"

definition sample_generate_openapi_spec :: "generator \<Rightarrow> py_error + pyval" where
  "sample_generate_openapi_spec g =
     generate_from sample_literal sample_prop_schema sample_openapi_path sample_operation g"

section \<open>The comprehensive generator (generate\_comprehensive\_openapi.py)\<close>

subsection \<open>The tables\<close>

text \<open>
  A row of \<^verbatim>\<open>entities_data\<close> is a tuple of three, four or five components: name,
  type and description, which are strings in every row, and what follows them.
\<close>

datatype more = No_more | Fourth pyval | Fifth pyval items_ref

type_synonym prop_data = "string \<times> string \<times> string \<times> more"

definition comprehensive_account :: EntityInfo where
  \<open>comprehensive_account =
     \<lparr>entity_name = ''Account'',
      entity_description = PStr ''Represents a user of Mastodon and their associated profile.'',
      entity_properties =
        [new_PropertyInfo ''id'' ''string'' ''The account id'',
         new_PropertyInfo ''username'' ''string'' ''The username of the account, not including domain'',
         new_PropertyInfo ''acct'' ''string'' ''The Webfinger account URI. Equal to username for local users, or username@domain for remote users'',
         new_PropertyInfo ''display_name'' ''string'' ''The profile\'s display name'',
         new_PropertyInfo ''locked'' ''boolean'' ''Whether the account manually approves follow requests'',
         new_PropertyInfo ''bot'' ''boolean'' ''Whether the account may perform automated actions'',
         (new_PropertyInfo ''discoverable'' ''boolean'' ''Whether the account has opted into discovery features'')\<lparr>prop_required := False, prop_nullable := True\<rparr>,
         (new_PropertyInfo ''group'' ''boolean'' ''Whether the account represents a Group actor'')\<lparr>prop_required := False\<rparr>,
         (new_PropertyInfo ''created_at'' ''string'' ''When the account was created'')\<lparr>prop_format := Some ''date-time''\<rparr>,
         new_PropertyInfo ''note'' ''string'' ''The profile\'s bio / description'',
         (new_PropertyInfo ''url'' ''string'' ''The location of the user\'s profile page'')\<lparr>prop_format := Some ''uri''\<rparr>,
         (new_PropertyInfo ''uri'' ''string'' ''The user\'s ActivityPub actor identifier'')\<lparr>prop_format := Some ''uri'', prop_required := False\<rparr>,
         (new_PropertyInfo ''avatar'' ''string'' ''An image icon that is shown next to statuses and in the profile'')\<lparr>prop_format := Some ''uri''\<rparr>,
         (new_PropertyInfo ''avatar_static'' ''string'' ''A static version of the avatar'')\<lparr>prop_format := Some ''uri''\<rparr>,
         (new_PropertyInfo ''header'' ''string'' ''An image banner that is shown above the profile'')\<lparr>prop_format := Some ''uri''\<rparr>,
         (new_PropertyInfo ''header_static'' ''string'' ''A static version of the header'')\<lparr>prop_format := Some ''uri''\<rparr>,
         new_PropertyInfo ''followers_count'' ''integer'' ''The reported followers of this profile'',
         new_PropertyInfo ''following_count'' ''integer'' ''The reported follows of this profile'',
         new_PropertyInfo ''statuses_count'' ''integer'' ''How many statuses are attached to this account'',
         (new_PropertyInfo ''last_status_at'' ''string'' ''When the most recent status was posted'')\<lparr>prop_format := Some ''date'', prop_nullable := True\<rparr>,
         (new_PropertyInfo ''noindex'' ''boolean'' ''Whether the local user has opted out of being indexed by search engines'')\<lparr>prop_required := False, prop_nullable := True\<rparr>,
         (new_PropertyInfo ''emojis'' ''array'' ''Custom emoji entities to be used when rendering the profile'')\<lparr>prop_items_ref := Ref ''CustomEmoji''\<rparr>,
         (new_PropertyInfo ''fields'' ''array'' ''Additional metadata attached to a profile as name-value pairs'')\<lparr>prop_items_ref := Ref ''Field''\<rparr>,
         (new_PropertyInfo ''moved'' ''object'' ''Indicates that the profile is currently inactive and that its user has moved to a new account'')\<lparr>prop_nullable := True, prop_required := False\<rparr>,
         (new_PropertyInfo ''suspended'' ''boolean'' ''An extra attribute returned only when an account is suspended'')\<lparr>prop_required := False\<rparr>,
         (new_PropertyInfo ''limited'' ''boolean'' ''An extra attribute returned only when an account is silenced'')\<lparr>prop_required := False\<rparr>,
         (new_PropertyInfo ''hide_collections'' ''boolean'' ''Whether the user hides the contents of their follows and followers collections'')\<lparr>prop_required := False\<rparr>]\<rparr>\<close>

definition comprehensive_cred_account :: EntityInfo where
  \<open>comprehensive_cred_account =
     \<lparr>entity_name = ''CredentialAccount'',
      entity_description = PStr ''Represents the current user\'s account with additional private information.'',
      entity_properties =
        entity_properties comprehensive_account @
        [(new_PropertyInfo ''source'' ''object'' ''An extra attribute that contains source values to be used with API methods'')\<lparr>prop_required := False\<rparr>,
         (new_PropertyInfo ''role'' ''object'' ''The role assigned to the currently authorized user'')\<lparr>prop_required := False\<rparr>]\<rparr>\<close>

definition comprehensive_status :: EntityInfo where
  \<open>comprehensive_status =
     \<lparr>entity_name = ''Status'',
      entity_description = PStr ''Represents a status posted by an account.'',
      entity_properties =
        [new_PropertyInfo ''id'' ''string'' ''ID of the status in the database'',
         (new_PropertyInfo ''uri'' ''string'' ''URI of the status used for federation'')\<lparr>prop_format := Some ''uri''\<rparr>,
         (new_PropertyInfo ''created_at'' ''string'' ''The date when this status was created'')\<lparr>prop_format := Some ''date-time''\<rparr>,
         new_PropertyInfo ''account'' ''object'' ''The account that authored this status'',
         new_PropertyInfo ''content'' ''string'' ''HTML-encoded status content'',
         new_PropertyInfo ''visibility'' ''string'' ''Visibility of this status'',
         new_PropertyInfo ''sensitive'' ''boolean'' ''Is this status marked as sensitive content?'',
         new_PropertyInfo ''spoiler_text'' ''string'' ''Subject or summary line, below which status content is collapsed'',
         (new_PropertyInfo ''media_attachments'' ''array'' ''Media that is attached to this status'')\<lparr>prop_items_ref := Ref ''MediaAttachment''\<rparr>,
         (new_PropertyInfo ''application'' ''object'' ''The application used to post this status'')\<lparr>prop_nullable := True\<rparr>,
         (new_PropertyInfo ''mentions'' ''array'' ''Mentions of users within the status content'')\<lparr>prop_items_ref := Ref ''Mention''\<rparr>,
         (new_PropertyInfo ''tags'' ''array'' ''Hashtags used within the status content'')\<lparr>prop_items_ref := Ref ''Tag''\<rparr>,
         (new_PropertyInfo ''emojis'' ''array'' ''Custom emoji to be used when rendering status content'')\<lparr>prop_items_ref := Ref ''CustomEmoji''\<rparr>,
         new_PropertyInfo ''reblogs_count'' ''integer'' ''How many boosts this status has received'',
         new_PropertyInfo ''favourites_count'' ''integer'' ''How many favourites this status has received'',
         new_PropertyInfo ''replies_count'' ''integer'' ''How many replies this status has received'',
         (new_PropertyInfo ''url'' ''string'' ''A link to the status\'s HTML representation'')\<lparr>prop_format := Some ''uri'', prop_nullable := True\<rparr>,
         (new_PropertyInfo ''in_reply_to_id'' ''string'' ''ID of the status being replied to'')\<lparr>prop_nullable := True\<rparr>,
         (new_PropertyInfo ''in_reply_to_account_id'' ''string'' ''ID of the account being replied to'')\<lparr>prop_nullable := True\<rparr>,
         (new_PropertyInfo ''reblog'' ''object'' ''The status being reblogged'')\<lparr>prop_nullable := True\<rparr>,
         (new_PropertyInfo ''poll'' ''object'' ''The poll attached to the status'')\<lparr>prop_nullable := True\<rparr>,
         (new_PropertyInfo ''card'' ''object'' ''Preview card for links included within status content'')\<lparr>prop_nullable := True\<rparr>,
         (new_PropertyInfo ''language'' ''string'' ''Primary language of this status'')\<lparr>prop_nullable := True\<rparr>,
         (new_PropertyInfo ''text'' ''string'' ''Plain-text source of a status'')\<lparr>prop_nullable := True\<rparr>,
         (new_PropertyInfo ''edited_at'' ''string'' ''Timestamp of when the status was last edited'')\<lparr>prop_format := Some ''date-time'', prop_nullable := True\<rparr>,
         (new_PropertyInfo ''favourited'' ''boolean'' ''Have you favourited this status?'')\<lparr>prop_required := False\<rparr>,
         (new_PropertyInfo ''reblogged'' ''boolean'' ''Have you boosted this status?'')\<lparr>prop_required := False\<rparr>,
         (new_PropertyInfo ''muted'' ''boolean'' ''Have you muted notifications for this status\'s conversation?'')\<lparr>prop_required := False\<rparr>,
         (new_PropertyInfo ''bookmarked'' ''boolean'' ''Have you bookmarked this status?'')\<lparr>prop_required := False\<rparr>,
         (new_PropertyInfo ''pinned'' ''boolean'' ''Have you pinned this status?'')\<lparr>prop_required := False\<rparr>]\<rparr>\<close>

definition comprehensive_media :: EntityInfo where
  \<open>comprehensive_media =
     \<lparr>entity_name = ''MediaAttachment'',
      entity_description = PStr ''Represents a file or media attachment that can be added to a status.'',
      entity_properties =
        [new_PropertyInfo ''id'' ''string'' ''The ID of the attachment in the database'',
         new_PropertyInfo ''type'' ''string'' ''The type of the attachment'',
         (new_PropertyInfo ''url'' ''string'' ''The location of the original full-size attachment'')\<lparr>prop_format := Some ''uri''\<rparr>,
         (new_PropertyInfo ''preview_url'' ''string'' ''The location of a scaled-down preview of the attachment'')\<lparr>prop_format := Some ''uri''\<rparr>,
         (new_PropertyInfo ''remote_url'' ''string'' ''The location of the full-size original attachment on the remote website'')\<lparr>prop_format := Some ''uri'', prop_nullable := True\<rparr>,
         new_PropertyInfo ''meta'' ''object'' ''Metadata returned by Paperclip'',
         (new_PropertyInfo ''description'' ''string'' ''Alternate text that describes what is in the media attachment'')\<lparr>prop_nullable := True\<rparr>,
         (new_PropertyInfo ''blurhash'' ''string'' ''A hash computed by the BlurHash algorithm'')\<lparr>prop_nullable := True\<rparr>]\<rparr>\<close>

definition comprehensive_notification :: EntityInfo where
  \<open>comprehensive_notification =
     \<lparr>entity_name = ''Notification'',
      entity_description = PStr ''Represents a notification of an event relevant to the user.'',
      entity_properties =
        [new_PropertyInfo ''id'' ''string'' ''The id of the notification in the database'',
         new_PropertyInfo ''type'' ''string'' ''The type of event that resulted in the notification'',
         (new_PropertyInfo ''created_at'' ''string'' ''The timestamp of the notification'')\<lparr>prop_format := Some ''date-time''\<rparr>,
         new_PropertyInfo ''account'' ''object'' ''The account that performed the action that generated the notification'',
         (new_PropertyInfo ''status'' ''object'' ''Status that was the object of the notification'')\<lparr>prop_nullable := True\<rparr>,
         (new_PropertyInfo ''report'' ''object'' ''Report that was the object of the notification'')\<lparr>prop_nullable := True, prop_required := False\<rparr>,
         (new_PropertyInfo ''relationship_severance_event'' ''object'' ''Summary of the event that caused follow relationships to be severed'')\<lparr>prop_nullable := True, prop_required := False\<rparr>]\<rparr>\<close>

definition entities_data :: "(string \<times> string \<times> prop_data list) list" where
  \<open>entities_data =
     [(''CustomEmoji'', ''Represents a custom emoji.'',
        [(''shortcode'', ''string'', ''The name of the custom emoji'', No_more),
          (''url'', ''string'', ''A link to the custom emoji'', Fourth (PStr ''uri'')),
          (''static_url'', ''string'', ''A link to a static copy of the custom emoji'', Fourth (PStr ''uri'')),
          (''visible_in_picker'', ''boolean'', ''Whether this Emoji should be visible in the picker or unlisted'', No_more),
          (''category'', ''string'', ''Used for sorting custom emoji in the picker'', Fourth (PBool True))]),
      (''Field'', ''Represents a profile field as a name-value pair with optional verification.'',
        [(''name'', ''string'', ''The key of a given field\'s key-value pair'', No_more),
          (''value'', ''string'', ''The value associated with the name key'', No_more),
          (''verified_at'', ''string'', ''Timestamp of when the server verified a URL value for a rel="me" link'', Fifth (PStr ''date-time'') (Ref_bool True))]),
      (''Mention'', ''Represents a mention of a user within the status content.'',
        [(''id'', ''string'', ''The account id of the mentioned user'', No_more),
          (''username'', ''string'', ''The username of the mentioned user'', No_more),
          (''url'', ''string'', ''The location of the mentioned user\'s profile'', Fourth (PStr ''uri'')),
          (''acct'', ''string'', ''The webfinger acct: URI of the mentioned user'', No_more)]),
      (''Tag'', ''Represents a hashtag used within the status content.'',
        [(''name'', ''string'', ''The value of the hashtag after the # sign'', No_more),
          (''url'', ''string'', ''A link to the hashtag on the instance'', Fourth (PStr ''uri'')),
          (''history'', ''array'', ''Usage statistics for given days'', Fifth (PBool False) (Ref ''TagHistory'')),
          (''following'', ''boolean'', ''Whether the current token\'s authorized user is following this tag'', Fourth (PBool False))]),
      (''Poll'', ''Represents a poll attached to a status.'',
        [(''id'', ''string'', ''The ID of the poll in the database'', No_more),
          (''expires_at'', ''string'', ''When the poll ends'', Fifth (PStr ''date-time'') (Ref_bool True)),
          (''expired'', ''boolean'', ''Is the poll currently expired?'', No_more),
          (''multiple'', ''boolean'', ''Does the poll allow multiple-choice answers?'', No_more),
          (''votes_count'', ''integer'', ''How many votes have been received'', No_more),
          (''voters_count'', ''integer'', ''How many unique accounts have voted on a multiple-choice poll'', Fourth (PBool True)),
          (''options'', ''array'', ''Possible answers for the poll'', Fifth (PBool False) (Ref ''PollOption'')),
          (''emojis'', ''array'', ''Custom emoji to be used for rendering poll options'', Fifth (PBool False) (Ref ''CustomEmoji'')),
          (''voted'', ''boolean'', ''When called with a user token, has the authorized user voted?'', Fourth (PBool False)),
          (''own_votes'', ''array'', ''When called with a user token, which options has the authorized user chosen?'', Fourth (PBool False))]),
      (''PollOption'', ''Represents a poll choice.'',
        [(''title'', ''string'', ''The text value of the poll option'', No_more),
          (''votes_count'', ''integer'', ''The number of received votes for this option'', Fourth (PBool True))]),
      (''Application'', ''Represents an application that interfaces with the REST API to access accounts or post statuses.'',
        [(''name'', ''string'', ''The name of your application'', No_more),
          (''website'', ''string'', ''The website associated with your application'', Fifth (PStr ''uri'') (Ref_bool True)),
          (''vapid_key'', ''string'', ''Used for Push Streaming API'', Fourth (PBool False))]),
      (''Token'', ''Represents an OAuth token used for authenticating with the API and performing actions.'',
        [(''access_token'', ''string'', ''An OAuth token to be used for authorization'', No_more),
          (''token_type'', ''string'', ''The OAuth token type'', No_more),
          (''scope'', ''string'', ''The OAuth scopes granted by this token'', No_more),
          (''created_at'', ''integer'', ''When the token was generated'', No_more)]),
      (''Instance'', ''Represents the software instance of Mastodon running on this domain.'',
        [(''uri'', ''string'', ''The domain name of the instance'', No_more),
          (''title'', ''string'', ''The title of the website'', No_more),
          (''short_description'', ''string'', ''A shorter description defined by the admin'', No_more),
          (''description'', ''string'', ''A description for the instance'', No_more),
          (''email'', ''string'', ''An email that may be contacted for any inquiries'', No_more),
          (''version'', ''string'', ''The version of Mastodon installed on the instance'', No_more),
          (''urls'', ''object'', ''URLs of interest for clients apps'', No_more),
          (''stats'', ''object'', ''Statistics about how much information the instance contains'', No_more),
          (''thumbnail'', ''string'', ''Banner image for the instance'', Fifth (PStr ''uri'') (Ref_bool True)),
          (''languages'', ''array'', ''Primary languages of the website and its staff'', No_more),
          (''registrations'', ''boolean'', ''Whether registrations are enabled'', No_more),
          (''approval_required'', ''boolean'', ''Whether registrations require moderator approval'', No_more),
          (''invites_enabled'', ''boolean'', ''Whether invites are enabled'', No_more),
          (''configuration'', ''object'', ''Configured values and limits for this website'', No_more),
          (''contact_account'', ''object'', ''A user that can be contacted regarding the instance'', Fourth (PBool True)),
          (''rules'', ''array'', ''An itemized list of rules for this website'', Fifth (PBool False) (Ref ''Rule''))]),
      (''Error'', ''Represents an error.'',
        [(''error'', ''string'', ''The error message'', No_more),
          (''error_description'', ''string'', ''A longer description of the error'', Fourth (PBool False))]),
      (''Context'', ''Represents the tree around a given status.'',
        [(''ancestors'', ''array'', ''Parents in the thread'', Fifth (PBool False) (Ref ''Status'')),
          (''descendants'', ''array'', ''Children in the thread'', Fifth (PBool False) (Ref ''Status''))]),
      (''Conversation'', ''Represents a conversation with "direct message" visibility.'',
        [(''id'', ''string'', ''Local database ID of the conversation'', No_more),
          (''unread'', ''boolean'', ''Is the conversation currently marked as unread?'', No_more),
          (''accounts'', ''array'', ''Participants in the conversation'', Fifth (PBool False) (Ref ''Account'')),
          (''last_status'', ''object'', ''The last status in the conversation'', Fourth (PBool True))])]\<close>

definition endpoint_groups :: "(string \<times> (string \<times> string \<times> string \<times> string) list) list" where
  \<open>endpoint_groups =
     [(''accounts'',
       [(''GET'', ''/api/v1/accounts/{id}'', ''View account'', ''View information about a profile''),
        (''GET'', ''/api/v1/accounts/verify_credentials'', ''Verify credentials'', ''Test to make sure that the user token works''),
        (''PATCH'', ''/api/v1/accounts/update_credentials'', ''Update credentials'', ''Update the user\'s display and preferences''),
        (''GET'', ''/api/v1/accounts/{id}/statuses'', ''Get account statuses'', ''Statuses posted to the given account''),
        (''GET'', ''/api/v1/accounts/{id}/followers'', ''Get account followers'', ''Accounts which follow the given account''),
        (''GET'', ''/api/v1/accounts/{id}/following'', ''Get account following'', ''Accounts which the given account is following''),
        (''POST'', ''/api/v1/accounts/{id}/follow'', ''Follow account'', ''Follow the given account''),
        (''POST'', ''/api/v1/accounts/{id}/unfollow'', ''Unfollow account'', ''Unfollow the given account''),
        (''POST'', ''/api/v1/accounts/{id}/block'', ''Block account'', ''Block the given account''),
        (''POST'', ''/api/v1/accounts/{id}/unblock'', ''Unblock account'', ''Unblock the given account''),
        (''POST'', ''/api/v1/accounts/{id}/mute'', ''Mute account'', ''Mute the given account''),
        (''POST'', ''/api/v1/accounts/{id}/unmute'', ''Unmute account'', ''Unmute the given account''),
        (''GET'', ''/api/v1/accounts/relationships'', ''Check relationships'', ''Find out whether a given account is followed, blocked, muted, etc.''),
        (''GET'', ''/api/v1/accounts/search'', ''Search accounts'', ''Search for matching accounts by username or display name'')]),
      (''statuses'',
       [(''GET'', ''/api/v1/statuses/{id}'', ''View status'', ''View information about a status''),
        (''POST'', ''/api/v1/statuses'', ''Publish status'', ''Post a new status''),
        (''DELETE'', ''/api/v1/statuses/{id}'', ''Delete status'', ''Delete one of your own statuses''),
        (''GET'', ''/api/v1/statuses/{id}/context'', ''Get status context'', ''View statuses above and below this status in the thread''),
        (''POST'', ''/api/v1/statuses/{id}/reblog'', ''Boost status'', ''Reshare a status''),
        (''POST'', ''/api/v1/statuses/{id}/unreblog'', ''Undo boost'', ''Undo a reshare of a status''),
        (''POST'', ''/api/v1/statuses/{id}/favourite'', ''Favourite status'', ''Add a status to your favourites list''),
        (''POST'', ''/api/v1/statuses/{id}/unfavourite'', ''Undo favourite'', ''Remove a status from your favourites list''),
        (''POST'', ''/api/v1/statuses/{id}/bookmark'', ''Bookmark status'', ''Privately bookmark a status''),
        (''POST'', ''/api/v1/statuses/{id}/unbookmark'', ''Undo bookmark'', ''Remove a status from your private bookmarks''),
        (''POST'', ''/api/v1/statuses/{id}/mute'', ''Mute conversation'', ''Do not receive notifications for the thread''),
        (''POST'', ''/api/v1/statuses/{id}/unmute'', ''Unmute conversation'', ''Start receiving notifications for the thread again''),
        (''POST'', ''/api/v1/statuses/{id}/pin'', ''Pin status'', ''Pin status to the top of your profile''),
        (''POST'', ''/api/v1/statuses/{id}/unpin'', ''Unpin status'', ''Unpin a status from the top of your profile''),
        (''PUT'', ''/api/v1/statuses/{id}'', ''Edit status'', ''Change the content of a status that has already been published''),
        (''GET'', ''/api/v1/statuses/{id}/history'', ''Get status edit history'', ''Get all known versions of a status in reverse chronological order''),
        (''GET'', ''/api/v1/statuses/{id}/source'', ''Get status source'', ''Obtain the source properties for a status'')]),
      (''timelines'',
       [(''GET'', ''/api/v1/timelines/home'', ''Home timeline'', ''View statuses from followed users''),
        (''GET'', ''/api/v1/timelines/public'', ''Public timeline'', ''Public timeline''),
        (''GET'', ''/api/v1/timelines/tag/{hashtag}'', ''Hashtag timeline'', ''View public statuses containing the given hashtag''),
        (''GET'', ''/api/v1/timelines/list/{list_id}'', ''List timeline'', ''View statuses in the given list timeline'')]),
      (''notifications'',
       [(''GET'', ''/api/v1/notifications'', ''Get notifications'', ''Receive notifications for the current user''),
        (''GET'', ''/api/v1/notifications/{id}'', ''Get single notification'', ''View information about a notification with a given ID''),
        (''POST'', ''/api/v1/notifications/clear'', ''Dismiss all notifications'', ''Clear all notifications from the server''),
        (''POST'', ''/api/v1/notifications/{id}/dismiss'', ''Dismiss single notification'', ''Clear a single notification from the server'')]),
      (''search'',
       [(''GET'', ''/api/v2/search'', ''Search'', ''Search for content in accounts, statuses and hashtags'')]),
      (''instance'',
       [(''GET'', ''/api/v1/instance'', ''View server information'', ''Information about the server''),
        (''GET'', ''/api/v1/instance/peers'', ''List of connected domains'', ''Domains that this instance is aware of''),
        (''GET'', ''/api/v1/instance/activity'', ''Weekly activity'', ''Instance activity over the last 3 months''),
        (''GET'', ''/api/v1/instance/rules'', ''View server rules'', ''Rules that the users of this service should follow''),
        (''GET'', ''/api/v1/instance/domain_blocks'', ''View domain blocks'', ''Obtain a list of domains that have been blocked''),
        (''GET'', ''/api/v1/instance/extended_description'', ''View extended description'', ''Obtain an extended description of this server'')]),
      (''apps'',
       [(''POST'', ''/api/v1/apps'', ''Create an application'', ''Create a new application to obtain OAuth2 credentials''),
        (''GET'', ''/api/v1/apps/verify_credentials'', ''Verify your app works'', ''Confirm that the app\'s OAuth2 credentials work'')]),
      (''oauth'',
       [(''POST'', ''/oauth/token'', ''Obtain a token'', ''Obtain an access token''),
        (''POST'', ''/oauth/revoke'', ''Revoke a token'', ''Revoke an access token'')]),
      (''media'',
       [(''POST'', ''/api/v1/media'', ''Upload media attachment'', ''Creates an attachment to be used with a new status''),
        (''GET'', ''/api/v1/media/{id}'', ''Get media attachment'', ''Get a media attachment''),
        (''PUT'', ''/api/v1/media/{id}'', ''Update media attachment'', ''Update a MediaAttachment\'s parameters'')]),
      (''polls'',
       [(''GET'', ''/api/v1/polls/{id}'', ''View a poll'', ''View a poll''),
        (''POST'', ''/api/v1/polls/{id}/votes'', ''Vote on a poll'', ''Submit a vote to a poll'')]),
      (''lists'',
       [(''GET'', ''/api/v1/lists'', ''View your lists'', ''Fetch all lists that the user owns''),
        (''GET'', ''/api/v1/lists/{id}'', ''View a single list'', ''Fetch the list with the given ID''),
        (''POST'', ''/api/v1/lists'', ''Create a list'', ''Create a new list''),
        (''PUT'', ''/api/v1/lists/{id}'', ''Update a list'', ''Change the title of a list''),
        (''DELETE'', ''/api/v1/lists/{id}'', ''Delete a list'', ''Delete a list''),
        (''GET'', ''/api/v1/lists/{id}/accounts'', ''View accounts in list'', ''View accounts in the given list''),
        (''POST'', ''/api/v1/lists/{id}/accounts'', ''Add accounts to list'', ''Add accounts to the given list''),
        (''DELETE'', ''/api/v1/lists/{id}/accounts'', ''Remove accounts from list'', ''Remove accounts from the given list'')]),
      (''follow_requests'',
       [(''GET'', ''/api/v1/follow_requests'', ''View pending follow requests'', ''Pending follow requests''),
        (''POST'', ''/api/v1/follow_requests/{account_id}/authorize'', ''Accept follow request'', ''Accept a follow request''),
        (''POST'', ''/api/v1/follow_requests/{account_id}/reject'', ''Reject follow request'', ''Reject a follow request'')]),
      (''blocks'',
       [(''GET'', ''/api/v1/blocks'', ''View blocked users'', ''View your blocks'')]),
      (''mutes'',
       [(''GET'', ''/api/v1/mutes'', ''View muted users'', ''View your mutes'')]),
      (''favourites'',
       [(''GET'', ''/api/v1/favourites'', ''View favourited statuses'', ''Statuses the user has favourited'')]),
      (''bookmarks'',
       [(''GET'', ''/api/v1/bookmarks'', ''View bookmarked statuses'', ''Statuses the user has bookmarked'')])]\<close>

definition success_responses :: "(string \<times> (string \<times> string) list) list" where
  \<open>success_responses =
     [(''accounts'',
       [(''verify_credentials'', ''CredentialAccount''),
        (''update_credentials'', ''CredentialAccount''),
        (''{id}'', ''Account''),
        (''search'', ''Account''),
        (''relationships'', ''Relationship'')]),
      (''statuses'',
       [(''{id}'', ''Status''),
        ('''', ''Status''),
        (''context'', ''Context''),
        (''history'', ''StatusEdit''),
        (''source'', ''StatusSource'')]),
      (''notifications'',
       [('''', ''Notification''),
        (''{id}'', ''Notification'')]),
      (''instance'',
       [('''', ''Instance''),
        (''rules'', ''Rule''),
        (''activity'', ''Activity'')]),
      (''media'',
       [('''', ''MediaAttachment''),
        (''{id}'', ''MediaAttachment'')]),
      (''polls'',
       [(''{id}'', ''Poll''),
        (''votes'', ''Poll'')]),
      (''apps'',
       [('''', ''Application''),
        (''verify_credentials'', ''Application'')]),
      (''oauth'',
       [(''token'', ''Token'')]),
      (''search'',
       [('''', ''Search'')])]\<close>


text \<open>\<^verbatim>\<open>s.split(sep)\<close> for a separator that is not empty.\<close>

function split :: "string \<Rightarrow> string \<Rightarrow> string list" where
  "split [] sep = [[]]"
| "split (c # cs) sep =
     (if sep \<noteq> [] \<and> startswith (c # cs) sep
      then [] # split (drop (length sep) (c # cs)) sep
      else (case split cs sep of
              [] \<Rightarrow> [[c]]
            | w # ws \<Rightarrow> (c # w) # ws))"
  by pat_completeness auto
termination
  by (relation "measure (\<lambda>(s, sep). length s)") auto

subsection \<open>The entities\<close>

text \<open>
  The body of the loop over the rows: \<^verbatim>\<open>prop_data[3]\<close> is the format when it is a
  string and the nullable flag when it is a boolean, \<^verbatim>\<open>prop_data[4]\<close> is the
  reference for the items, and \<^verbatim>\<open>required = not prop_nullable\<close>.
\<close>

fun fourth :: "more \<Rightarrow> pyval option" where
  "fourth No_more = None"
| "fourth (Fourth x) = Some x"
| "fourth (Fifth x y) = Some x"

fun fifth :: "more \<Rightarrow> items_ref" where
  "fifth No_more = No_ref"
| "fifth (Fourth x) = No_ref"
| "fifth (Fifth x y) = y"

definition data_format :: "more \<Rightarrow> string option" where
  "data_format m = (case fourth m of Some (PStr s) \<Rightarrow> Some s | _ \<Rightarrow> None)"

definition data_nullable :: "more \<Rightarrow> bool" where
  "data_nullable m = (case fourth m of Some (PBool b) \<Rightarrow> b | _ \<Rightarrow> False)"

definition data_property :: "prop_data \<Rightarrow> PropertyInfo" where
  "data_property row =
     (case row of (name, type, description, m) \<Rightarrow>
        \<lparr>prop_name = name, prop_type = type, prop_description = description,
         prop_required = (\<not> data_nullable m),
         prop_nullable = data_nullable m,
         prop_format = data_format m,
         prop_items_ref = fifth m\<rparr>)"

definition data_entity :: "string \<times> string \<times> prop_data list \<Rightarrow> EntityInfo" where
  "data_entity row =
     (case row of (name, description, props) \<Rightarrow>
        \<lparr>entity_name = name, entity_description = PStr description,
         entity_properties = map data_property props\<rparr>)"

definition create_comprehensive_entities :: "generator \<Rightarrow> generator" where
  "create_comprehensive_entities g =
     fold (\<lambda>row. set_entity (fst row) (data_entity row)) entities_data
       (set_entity ''Notification'' comprehensive_notification
         (set_entity ''MediaAttachment'' comprehensive_media
           (set_entity ''Status'' comprehensive_status
             (set_entity ''CredentialAccount'' comprehensive_cred_account
               (set_entity ''Account'' comprehensive_account g)))))"

subsection \<open>The endpoints\<close>

definition update_credentials_parameters :: "ParameterInfo list" where
  "update_credentials_parameters =
     [new_ParameterInfo ''display_name'' ''string'' ''The display name to use for the profile'',
      new_ParameterInfo ''note'' ''string'' ''The account bio'',
      new_ParameterInfo ''avatar'' ''string'' ''Avatar image encoded using multipart/form-data'',
      new_ParameterInfo ''header'' ''string'' ''Header image encoded using multipart/form-data'',
      new_ParameterInfo ''locked'' ''boolean''
        ''Whether manual approval of follow requests is required'',
      new_ParameterInfo ''bot'' ''boolean'' ''Whether the account is a bot'',
      new_ParameterInfo ''discoverable'' ''boolean''
        ''Whether the account should be shown in the profile directory'']"

definition post_status_parameters :: "ParameterInfo list" where
  "post_status_parameters =
     [new_ParameterInfo ''status'' ''string'' ''Text content of the status'',
      new_ParameterInfo ''media_ids'' ''array''
        ''Array of attachment ids to be attached as media'',
      new_ParameterInfo ''poll'' ''object'' ''Poll to be attached'',
      new_ParameterInfo ''in_reply_to_id'' ''string'' ''ID of the status being replied to'',
      new_ParameterInfo ''sensitive'' ''boolean''
        ''Mark status and attached media as sensitive?'',
      new_ParameterInfo ''spoiler_text'' ''string''
        ''Text to be shown as a warning or subject before the actual content'',
      new_ParameterInfo ''visibility'' ''string'' ''Visibility of the posted status'',
      new_ParameterInfo ''language'' ''string'' ''ISO 639 language code for this status'',
      new_ParameterInfo ''scheduled_at'' ''string''
        ''ISO 8601 Datetime at which to schedule a status'']"

text \<open>
  The schema of the success response: looked up by the tag and by the last segment of
  the path, where a segment with a brace counts as \<open>{id}\<close>; the entry for the empty
  key is the default of a tag.
\<close>

definition response_schema :: "string \<Rightarrow> string \<Rightarrow> string option" where
  "response_schema tag path =
     (case dict_lookup success_responses tag of
        None \<Rightarrow> None
      | Some by_key \<Rightarrow>
          (let path_key = (if \<not> str_contains (last (split path ''/'')) ''{''
                           then last (split path ''/'') else ''{id}'')
           in if dict_has by_key path_key then dict_lookup by_key path_key
              else if dict_has by_key [] then dict_lookup by_key []
              else None))"

definition comprehensive_success_responses ::
  "string \<Rightarrow> string \<Rightarrow> string \<Rightarrow> ResponseInfo list" where
  "comprehensive_success_responses tag method path =
     (if method = ''GET'' then
        (if list_ex (str_contains path) [''timeline'', ''followers'', ''following'', ''statuses'']
         then [new_ResponseInfo ''200'' ''Success'']
         else [(new_ResponseInfo ''200'' ''Success'')
                 \<lparr>resp_schema_ref := response_schema tag path\<rparr>])
      else if method \<in> set [''POST'', ''PUT'', ''PATCH''] then
        (if str_contains path ''clear'' \<or> str_contains path ''dismiss'' \<or>
            str_contains path ''authorize'' \<or> str_contains path ''reject''
         then [new_ResponseInfo ''200'' ''Success'']
         else [(new_ResponseInfo ''200'' ''Success'')
                 \<lparr>resp_schema_ref := response_schema tag path\<rparr>])
      else if method = ''DELETE'' then [new_ResponseInfo ''200'' ''Success'']
      else [])"

definition comprehensive_endpoint ::
  "string \<Rightarrow> string \<times> string \<times> string \<times> string \<Rightarrow> EndpointInfo" where
  "comprehensive_endpoint tag row =
     (case row of (method, path, summary, description) \<Rightarrow>
        \<lparr>ep_path = path,
         ep_method = lower method,
         ep_summary = PStr summary,
         ep_description = PStr description,
         ep_parameters =
           (if str_contains path ''{id}''
            then [path_parameter ''id'' ''The ID of the resource''] else []) @
           (if str_contains path ''{account_id}''
            then [path_parameter ''account_id'' ''The ID of the Account in the database'']
            else []) @
           (if str_contains path ''{hashtag}''
            then [path_parameter ''hashtag'' ''The name of the hashtag''] else []) @
           (if str_contains path ''{list_id}''
            then [path_parameter ''list_id'' ''The ID of the List in the database'']
            else []) @
           (if method = ''GET'' \<and>
               list_ex (str_contains path)
                 [''timeline'', ''notifications'', ''statuses'', ''followers'', ''following'',
                  ''blocks'', ''mutes'', ''favourites'', ''bookmarks'']
            then paging_parameters ''Maximum number of results to return. Defaults to 20''
            else []) @
           (if str_contains path ''update_credentials''
            then update_credentials_parameters else []) @
           (if path = ''/api/v1/statuses'' \<and> method = ''POST''
            then post_status_parameters else []),
         ep_responses = comprehensive_success_responses tag method path @ error_responses,
         ep_tags = [tag]\<rparr>)"

definition create_comprehensive_endpoints :: "generator \<Rightarrow> generator" where
  "create_comprehensive_endpoints g =
     fold (\<lambda>group g'.
             fold (\<lambda>row. append_endpoint (comprehensive_endpoint (fst group) row))
               (snd group) g')
       endpoint_groups g"

subsection \<open>The specification object\<close>

definition comprehensive_security_schemes :: pyval where
  "comprehensive_security_schemes =
     PDict [(''OAuth2'',
               PDict [(''type'', PStr ''oauth2''),
                      (''description'', PStr ''OAuth 2.0 authorization code flow''),
                      (''flows'', PDict [(''authorizationCode'',
                         PDict [(''authorizationUrl'', PStr ''https://{instance}/oauth/authorize''),
                                (''tokenUrl'', PStr ''https://{instance}/oauth/token''),
                                (''scopes'',
                                 PDict [(''read'', PStr ''Read access to account data''),
                                        (''write'', PStr ''Write access to account data''),
                                        (''follow'', PStr ''Access to manage relationships''),
                                        (''push'',
                                         PStr ''Access to Web Push API subscriptions'')])])])]),
            (''BearerAuth'',
               PDict [(''type'', PStr ''http''), (''scheme'', PStr ''bearer''),
                      (''description'', PStr ''Bearer token authentication'')])]"

definition comprehensive_literal :: pyval where
  "comprehensive_literal =
     PDict [(''openapi'', PStr ''3.0.3''),
            (''info'', info_literal
               ''The Mastodon REST API. Please see https://docs.joinmastodon.org/api/ for more details.''),
            (''servers'', servers_literal),
            (''paths'', PDict []),
            (''components'', PDict [(''schemas'', PDict []),
                                    (''securitySchemes'', comprehensive_security_schemes)])]"

text \<open>
  The schema of one property. The reference for the items of an array is formatted into
  the \<open>$ref\<close> when it is true; for an object named in \<^verbatim>\<open>ref_map\<close> the whole
  schema is replaced.
\<close>

fun ref_truthy :: "items_ref \<Rightarrow> bool" where
  "ref_truthy No_ref = False"
| "ref_truthy (Ref s) = (s \<noteq> [])"
| "ref_truthy (Ref_bool b) = b"

fun ref_format :: "items_ref \<Rightarrow> string" where
  "ref_format No_ref = ''None''"
| "ref_format (Ref s) = s"
| "ref_format (Ref_bool b) = (if b then ''True'' else ''False'')"

definition ref_map :: "(string \<times> string) list" where
  "ref_map =
     [(''account'', ''Account''), (''status'', ''Status''), (''application'', ''Application''),
      (''poll'', ''Poll''), (''reblog'', ''Status''), (''last_status'', ''Status''),
      (''moved'', ''Account'')]"

definition comprehensive_prop_schema :: "PropertyInfo \<Rightarrow> pyval" where
  "comprehensive_prop_schema prop =
     (let schema = base_prop_schema prop;
          schema =
            (if prop_type prop = ''array'' then
               (if ref_truthy (prop_items_ref prop)
                  then dict_set schema ''items''
                         (schema_ref (ref_format (prop_items_ref prop)))
                else dict_set schema ''items'' (PDict [(''type'', PStr ''string'')]))
             else schema)
      in if prop_type prop = ''object'' \<and>
            prop_name prop \<in> set [''account'', ''status'', ''application'', ''poll'', ''reblog'',
                                   ''last_status'', ''moved'']
         then schema_ref (case dict_lookup ref_map (prop_name prop) of
                            None \<Rightarrow> ''object'' | Some name \<Rightarrow> name)
         else PDict schema)"

text \<open>
  The operation of one endpoint: \<open>security\<close> unless the method is \<open>get\<close> and the
  path contains \<open>public\<close> or \<open>instance\<close>.
\<close>

definition comprehensive_operation :: "EndpointInfo \<Rightarrow> pyval" where
  "comprehensive_operation endpoint =
     (let operation = operation_base endpoint
      in if \<not> (ep_method endpoint = ''get'' \<and>
                (str_contains (ep_path endpoint) ''public'' \<or>
                 str_contains (ep_path endpoint) ''instance''))
         then PDict (dict_set operation ''security'' bearer_security)
         else PDict operation)"

definition comprehensive_openapi_path :: "string \<Rightarrow> string" where
  "comprehensive_openapi_path path = replace (replace path ''{'' ''{'') ''}'' ''}''"

definition comprehensive_generate_openapi_spec :: "generator \<Rightarrow> py_error + pyval" where
  "comprehensive_generate_openapi_spec g =
     generate_from comprehensive_literal comprehensive_prop_schema comprehensive_openapi_path
       comprehensive_operation g"

section \<open>The scraping generator (generate\_openapi.py)\<close>

subsection \<open>The documentation host\<close>

text \<open>
  What the script gets from outside: the answer of \<^verbatim>\<open>requests.get\<close> for a URL (an
  exception, or a response with its status and what \<^verbatim>\<open>response.json()\<close> gives);
  \<^verbatim>\<open>base64.b64decode(x).decode("utf-8")\<close>; \<^verbatim>\<open>yaml.safe_load\<close> of a string;
  the groups of the matches of the two regular expressions in a text, in the order of
  \<^verbatim>\<open>re.finditer\<close>; the stem of a file name; and the text an f-string puts for a
  value that is not a string.
\<close>

record http_response =
  http_status :: nat
  http_json :: load_result

datatype get_result = Get_raised py_error | Got http_response

record docs_env =
  requests_get :: "string \<Rightarrow> get_result"
  b64decode_utf8 :: "pyval \<Rightarrow> py_error + string"
  yaml_load :: "string \<Rightarrow> load_result"
  attr_matches :: "string \<Rightarrow> (string \<times> string \<times> string) list"
  param_matches :: "string \<Rightarrow> (string \<times> string \<times> string \<times> string) list"
  path_stem :: "string \<Rightarrow> string"
  str_of :: "pyval \<Rightarrow> string"

definition MASTODON_DOCS_BASE_URL :: string where
  "MASTODON_DOCS_BASE_URL = ''https://api.github.com/repos/mastodon/documentation/contents''"


definition ENTITIES_PATH :: string where
  "ENTITIES_PATH = ''content/en/entities''"

text \<open>What the scraping script prints.\<close>

datatype log =
    ErrorFetching string py_error
  | ErrorListing string py_error
  | ParsedEntity string
  | ParsedEndpoint string string

text \<open>
  The first three statements of both fetching methods: the request,
  \<^verbatim>\<open>raise_for_status\<close>, which raises for a status from 400 to 599, and
  \<^verbatim>\<open>response.json()\<close>.
\<close>

definition get_json :: "docs_env \<Rightarrow> string \<Rightarrow> py_error + pyval" where
  "get_json env url =
     (case requests_get env url of
        Get_raised e \<Rightarrow> Inl e
      | Got response \<Rightarrow>
          if 400 \<le> http_status response \<and> http_status response < 600 then Inl HTTPError
          else (case http_json response of
                  Raised e \<Rightarrow> Inl e
                | Loaded data \<Rightarrow> Inr data))"

text \<open>
  \<^verbatim>\<open>fetch_file_content\<close>: the decoded text when the answer declares the encoding
  \<open>base64\<close>; every exception is caught, printed, and gives \<open>None\<close>.
\<close>

definition fetch_try :: "docs_env \<Rightarrow> string \<Rightarrow> py_error + string option" where
  "fetch_try env path =
     (case get_json env (MASTODON_DOCS_BASE_URL @ ''/'' @ path) of
        Inl e \<Rightarrow> Inl e
      | Inr data \<Rightarrow>
     (case py_get data ''encoding'' PNone of
        Inl e \<Rightarrow> Inl e
      | Inr encoding \<Rightarrow>
          if encoding = PStr ''base64'' then
            (case py_getitem data ''content'' of
               Inl e \<Rightarrow> Inl e
             | Inr content \<Rightarrow>
            (case b64decode_utf8 env content of
               Inl e \<Rightarrow> Inl e
             | Inr text \<Rightarrow> Inr (Some text)))
          else Inr None))"

definition fetch_file_content :: "docs_env \<Rightarrow> string \<Rightarrow> log list \<times> string option" where
  "fetch_file_content env path =
     (case fetch_try env path of
        Inl e \<Rightarrow> ([ErrorFetching path e], None)
      | Inr content \<Rightarrow> ([], content))"

text \<open>
  \<^verbatim>\<open>list_directory\<close>: what the host answers, whatever value it is; every exception
  is caught, printed, and gives the empty list.
\<close>

definition list_directory :: "docs_env \<Rightarrow> string \<Rightarrow> log list \<times> pyval" where
  "list_directory env path =
     (case get_json env (MASTODON_DOCS_BASE_URL @ ''/'' @ path) of
        Inl e \<Rightarrow> ([ErrorListing path e], PList [])
      | Inr listing \<Rightarrow> ([], listing))"

subsection \<open>Parsing a fetched file\<close>

text \<open>\<^verbatim>\<open>s.split(sep, maxsplit)\<close> and \<^verbatim>\<open>s.strip()\<close>.\<close>

function split_max :: "string \<Rightarrow> string \<Rightarrow> nat \<Rightarrow> string list" where
  "split_max [] sep n = [[]]"
| "split_max (c # cs) sep n =
     (if 0 < n \<and> sep \<noteq> [] \<and> startswith (c # cs) sep
      then [] # split_max (drop (length sep) (c # cs)) sep (n - 1)
      else (case split_max cs sep n of
              [] \<Rightarrow> [[c]]
            | w # ws \<Rightarrow> (c # w) # ws))"
  by pat_completeness auto
termination
  by (relation "measure (\<lambda>(s, sep, n). length s)") auto

text \<open>
  The characters \<^verbatim>\<open>str.strip()\<close> removes, among the code points below 256: the
  ASCII white space, the four separators from 28 to 31, the next-line character 133
  and the no-break space 160.
\<close>

definition is_space :: "char \<Rightarrow> bool" where
  "is_space c = ((of_char c :: nat) \<in> set [9, 10, 11, 12, 13, 28, 29, 30, 31, 32, 133, 160])"

definition strip :: "string \<Rightarrow> string" where
  "strip s = rev (dropWhile is_space (rev (dropWhile is_space s)))"

text \<open>The truth value of a Python value, for \<^verbatim>\<open>frontmatter or {}\<close>.\<close>

fun py_truthy :: "pyval \<Rightarrow> bool" where
  "py_truthy PNone = False"
| "py_truthy (PBool b) = b"
| "py_truthy (PInt i) = (i \<noteq> 0)"
| "py_truthy (PFloat m e) = (m \<noteq> 0)"
| "py_truthy (PStr s) = (s \<noteq> [])"
| "py_truthy (PList xs) = (xs \<noteq> [])"
| "py_truthy (PDict kvs) = (kvs \<noteq> [])"

text \<open>
  \<^verbatim>\<open>parse_frontmatter_and_content\<close>: only the YAML error is caught there.
\<close>

definition parse_frontmatter_and_content ::
  "docs_env \<Rightarrow> string \<Rightarrow> py_error + pyval \<times> string" where
  "parse_frontmatter_and_content env content =
     (if \<not> startswith content ''---'' then Inr (PDict [], content)
      else
        (let parts = split_max content ''---'' 2 in
         if length parts < 3 then Inr (PDict [], content)
         else
           (case yaml_load env (parts ! 1) of
              Raised e \<Rightarrow> if e = YAMLError then Inr (PDict [], content) else Inl e
            | Loaded frontmatter \<Rightarrow>
                Inr (if py_truthy frontmatter then frontmatter else PDict [],
                     strip (parts ! 2)))))"

text \<open>
  The property built from one match of the attribute pattern. The constructor is called
  without \<^verbatim>\<open>required\<close>, so the property has the default, \<open>True\<close>.
\<close>

definition scraped_property :: "string \<times> string \<times> string \<Rightarrow> PropertyInfo" where
  "scraped_property groups =
     (case groups of (attr_name, group2, group3) \<Rightarrow>
        (let description = strip group2;
             type_info = strip group3;
             nullable = (str_contains (lower type_info) ''nullable'' \<or>
                         str_contains (lower type_info) ''null'');
             mapped =
               (if str_contains type_info ''String'' then
                  (''string'',
                   if str_contains type_info ''URL'' then Some ''uri''
                   else if str_contains type_info ''Datetime'' then Some ''date-time''
                   else None)
                else if str_contains type_info ''Integer'' then (''integer'', None)
                else if str_contains type_info ''Boolean'' then (''boolean'', None)
                else if str_contains type_info ''Array'' then (''array'', None)
                else if str_contains type_info ''Hash'' then (''object'', None)
                else (''string'', None))
         in (new_PropertyInfo attr_name (fst mapped) description)
              \<lparr>prop_nullable := nullable, prop_format := snd mapped\<rparr>))"

text \<open>
  \<^verbatim>\<open>parse_entity\<close>: \<open>None\<close> when nothing was fetched. Reading the description
  off a front matter that is not a mapping raises, and nothing in the method catches it.
\<close>

definition entity_of_content ::
  "docs_env \<Rightarrow> string \<Rightarrow> string \<Rightarrow> py_error + EntityInfo option" where
  "entity_of_content env entity_file content =
     (case parse_frontmatter_and_content env content of
        Inl e \<Rightarrow> Inl e
      | Inr (frontmatter, body) \<Rightarrow>
     (case py_get frontmatter ''description'' (PStr []) of
        Inl e \<Rightarrow> Inl e
      | Inr description \<Rightarrow>
          Inr (Some \<lparr>entity_name = path_stem env entity_file,
                     entity_description = description,
                     entity_properties = map scraped_property (attr_matches env body)\<rparr>)))"

definition parse_entity ::
  "docs_env \<Rightarrow> string \<Rightarrow> log list \<times> (py_error + EntityInfo option)" where
  "parse_entity env entity_file =
     (case fetch_file_content env (ENTITIES_PATH @ ''/'' @ entity_file) of
        (logs, None) \<Rightarrow> (logs, Inr None)
      | (logs, Some content) \<Rightarrow>
          if content = [] then (logs, Inr None)
          else (logs, entity_of_content env entity_file content))"




subsection \<open>The parsing loops\<close>

text \<open>\<^verbatim>\<open>v.endswith(p)\<close>: only a string has the method.\<close>

fun py_endswith :: "pyval \<Rightarrow> string \<Rightarrow> py_error + bool" where
  "py_endswith (PStr s) p = Inr (endswith s p)"
| "py_endswith v p = Inl AttributeError"

text \<open>
  The test of both loops, \<^verbatim>\<open>x["type"] == "file" and x["name"].endswith(".md")\<close>:
  the name of the file when the test holds.
\<close>

definition md_file_name :: "pyval \<Rightarrow> py_error + string option" where
  "md_file_name x =
     (case py_getitem x ''type'' of
        Inl e \<Rightarrow> Inl e
      | Inr type \<Rightarrow>
          if type = PStr ''file'' then
            (case py_getitem x ''name'' of
               Inl e \<Rightarrow> Inl e
             | Inr name \<Rightarrow>
            (case py_endswith name ''.md'' of
               Inl e \<Rightarrow> Inl e
             | Inr is_md \<Rightarrow> if is_md then Inr (Some (the_str name)) else Inr None))
          else Inr None)"

text \<open>
  One round of the loop of \<^verbatim>\<open>parse_all_entities\<close>. An entity is stored under its
  name when \<^verbatim>\<open>parse_entity\<close> returns one; \<open>None\<close> is skipped. The loop has no
  handler: an exception ends it.
\<close>

definition entity_step ::
  "docs_env \<Rightarrow> pyval \<Rightarrow> generator \<Rightarrow> log list \<times> (py_error + generator)" where
  "entity_step env entity g =
     (case md_file_name entity of
        Inl e \<Rightarrow> ([], Inl e)
      | Inr None \<Rightarrow> ([], Inr g)
      | Inr (Some name) \<Rightarrow>
          (case parse_entity env name of
             (logs, Inl e) \<Rightarrow> (logs, Inl e)
           | (logs, Inr None) \<Rightarrow> (logs, Inr g)
           | (logs, Inr (Some parsed_entity)) \<Rightarrow>
               (logs @ [ParsedEntity (entity_name parsed_entity)],
                Inr (set_entity (entity_name parsed_entity) parsed_entity g))))"

fun entities_loop ::
  "docs_env \<Rightarrow> pyval list \<Rightarrow> generator \<Rightarrow> log list \<times> (py_error + generator)" where
  "entities_loop env [] g = ([], Inr g)"
| "entities_loop env (entity # rest) g =
     (case entity_step env entity g of
        (logs, Inl e) \<Rightarrow> (logs, Inl e)
      | (logs, Inr g') \<Rightarrow>
          (case entities_loop env rest g' of (logs', r) \<Rightarrow> (logs @ logs', r)))"

definition parse_all_entities ::
  "docs_env \<Rightarrow> generator \<Rightarrow> log list \<times> (py_error + generator)" where
  "parse_all_entities env g =
     (case list_directory env ENTITIES_PATH of
        (logs, listing) \<Rightarrow>
          (case py_iter listing of
             Inl e \<Rightarrow> (logs, Inl e)
           | Inr items \<Rightarrow>
               (case entities_loop env items g of (logs', r) \<Rightarrow> (logs @ logs', r))))"







subsection \<open>The specification object\<close>

text \<open>
  The schema of one property: the items of an array are always strings. The operation
  of one endpoint has all six keys.
\<close>

definition scraper_prop_schema :: "PropertyInfo \<Rightarrow> pyval" where
  "scraper_prop_schema prop =
     (let schema = base_prop_schema prop
      in if prop_type prop = ''array''
         then PDict (dict_set schema ''items'' (PDict [(''type'', PStr ''string'')]))
         else PDict schema)"

definition scraper_operation :: "EndpointInfo \<Rightarrow> pyval" where
  "scraper_operation endpoint =
     PDict [(''summary'', ep_summary endpoint),
            (''description'', ep_description endpoint),
            (''tags'', PList (map PStr (ep_tags endpoint))),
            (''parameters'', PList (map param_schema (ep_parameters endpoint))),
            (''responses'', PDict (responses_loop (ep_responses endpoint) [])),
            (''security'', bearer_security)]"

definition scraper_generate_openapi_spec :: "generator \<Rightarrow> py_error + pyval" where
  "scraper_generate_openapi_spec g =
     generate_from sample_literal scraper_prop_schema (\<lambda>path. path) scraper_operation g"

section \<open>The shape of a generated specification\<close>

text \<open>
  What the loops of \<^verbatim>\<open>generate_openapi_spec\<close> leave unchanged and what they fill:
  a specification is the literal with its \<open>paths\<close> and \<open>schemas\<close> filled.
\<close>

definition assemble ::
  "pyval \<Rightarrow> pyval \<Rightarrow> (string \<times> pyval) list \<Rightarrow> (string \<times> pyval) list \<Rightarrow> pyval \<Rightarrow> pyval" where
  "assemble info servers paths schemas security_schemes =
     PDict [(''openapi'', PStr ''3.0.3''),
            (''info'', info),
            (''servers'', servers),
            (''paths'', PDict paths),
            (''components'', PDict [(''schemas'', PDict schemas),
                                    (''securitySchemes'', security_schemes)])]"

text \<open>The names of the properties flagged required, in the order of the properties.\<close>

definition required_names :: "PropertyInfo list \<Rightarrow> string list" where
  "required_names props = map prop_name (filter prop_required props)"

text \<open>The schema of an entity, and the schemas of a table of entities.\<close>

definition entity_schema :: "(PropertyInfo \<Rightarrow> pyval) \<Rightarrow> EntityInfo \<Rightarrow> pyval" where
  "entity_schema prop_schema entity =
     PDict ([(''type'', PStr ''object''),
             (''description'', entity_description entity),
             (''properties'',
              PDict (fst (props_loop prop_schema (entity_properties entity) ([], []))))] @
            (if required_names (entity_properties entity) \<noteq> []
             then [(''required'', PList (map PStr (required_names (entity_properties entity))))]
             else []))"

fun schemas_of ::
  "(PropertyInfo \<Rightarrow> pyval) \<Rightarrow> (string \<times> EntityInfo) list \<Rightarrow> (string \<times> pyval) list
     \<Rightarrow> (string \<times> pyval) list" where
  "schemas_of prop_schema [] schemas = schemas"
| "schemas_of prop_schema ((name, entity) # rest) schemas =
     schemas_of prop_schema rest (dict_set schemas name (entity_schema prop_schema entity))"

text \<open>
  The paths: for each path the operations by method. An operation goes to its path's
  mapping, which is created when the path is new.
\<close>

definition add_operation ::
  "(string \<times> (string \<times> pyval) list) list \<Rightarrow> string \<Rightarrow> string \<Rightarrow> pyval
     \<Rightarrow> (string \<times> (string \<times> pyval) list) list" where
  "add_operation paths path method operation =
     dict_set paths path
       (dict_set (case dict_lookup paths path of None \<Rightarrow> [] | Some ops \<Rightarrow> ops)
          method operation)"

fun paths_of ::
  "(string \<Rightarrow> string) \<Rightarrow> (EndpointInfo \<Rightarrow> pyval) \<Rightarrow> EndpointInfo list
     \<Rightarrow> (string \<times> (string \<times> pyval) list) list \<Rightarrow> (string \<times> (string \<times> pyval) list) list" where
  "paths_of to_openapi_path make_operation [] paths = paths"
| "paths_of to_openapi_path make_operation (endpoint # rest) paths =
     paths_of to_openapi_path make_operation rest
       (add_operation paths (to_openapi_path (ep_path endpoint)) (ep_method endpoint)
          (make_operation endpoint))"

definition path_items :: "(string \<times> (string \<times> pyval) list) list \<Rightarrow> (string \<times> pyval) list" where
  "path_items paths = map (\<lambda>(path, ops). (path, PDict ops)) paths"


text \<open>
  The \<open>required\<close> list of an emitted schema, and what the specification asks of it: the
  name of a property is in the list exactly when the property is flagged required, and
  the key \<open>required\<close> is there exactly when some property is flagged required.
\<close>

definition required_list :: "(string \<times> pyval) list \<Rightarrow> pyval list" where
  "required_list schema =
     (case dict_lookup schema ''required'' of Some (PList names) \<Rightarrow> names | _ \<Rightarrow> [])"

definition required_matches :: "PropertyInfo list \<Rightarrow> (string \<times> pyval) list \<Rightarrow> bool" where
  "required_matches props schema =
     (list_all (\<lambda>p. (PStr (prop_name p) \<in> set (required_list schema)) = prop_required p) props \<and>
      dict_has schema ''required'' = list_ex prop_required props)"

text \<open>
  Properties of one entity that share a name share the flag; a table of entities is a
  mapping (its keys differ) and each of its entities has such properties.
\<close>

definition flags_consistent :: "PropertyInfo list \<Rightarrow> bool" where
  "flags_consistent props =
     list_all (\<lambda>p. list_all (\<lambda>q. prop_name q \<noteq> prop_name p \<or> prop_required q = prop_required p)
                       props) props"

definition table_consistent :: "(string \<times> EntityInfo) list \<Rightarrow> bool" where
  "table_consistent table =
     (distinct (map fst table) \<and>
      list_all (\<lambda>entry. flags_consistent (entity_properties (snd entry))) table)"


text \<open>
  The keys of the mapping under a chain of subscripts, in their order, and the order in
  which a loop that inserts keys one after the other leaves them: each key at its first
  insertion.
\<close>

definition keys_at :: "string list \<Rightarrow> pyval \<Rightarrow> string list" where
  "keys_at ks spec = (case get_in ks spec of Inr (PDict kvs) \<Rightarrow> dict_keys kvs | _ \<Rightarrow> [])"

fun first_occurrences :: "string list \<Rightarrow> string list \<Rightarrow> string list" where
  "first_occurrences seen [] = seen"
| "first_occurrences seen (x # xs) =
     first_occurrences (if x \<in> set seen then seen else seen @ [x]) xs"

definition key_order :: "(string \<Rightarrow> string) \<Rightarrow> generator \<Rightarrow> pyval \<Rightarrow> bool" where
  "key_order to_openapi_path g spec =
     (keys_at [] spec = [''openapi'', ''info'', ''servers'', ''paths'', ''components''] \<and>
      keys_at [''components''] spec = [''schemas'', ''securitySchemes''] \<and>
      keys_at [''components'', ''schemas''] spec = first_occurrences [] (map fst (entities g)) \<and>
      keys_at [''paths''] spec =
        first_occurrences [] (map (\<lambda>endpoint. to_openapi_path (ep_path endpoint)) (endpoints g)))"

text \<open>Whether an operation carries the key \<open>security\<close>.\<close>

definition has_security :: "pyval \<Rightarrow> bool" where
  "has_security operation =
     (case operation of PDict kvs \<Rightarrow> dict_has kvs ''security'' | _ \<Rightarrow> False)"

text \<open>The key under which an endpoint of the sample generator is emitted.\<close>

definition sample_key :: "EndpointInfo \<Rightarrow> string \<times> string" where
  "sample_key endpoint = (sample_openapi_path (ep_path endpoint), ep_method endpoint)"

text \<open>
  What the specification asks of the top level of a generated document: the version
  \<open>3.0.3\<close>, the five keys, and the two keys of \<open>components\<close>.
\<close>

definition top_level_ok :: "pyval \<Rightarrow> bool" where
  "top_level_ok spec =
     (case spec of
        PDict kvs \<Rightarrow>
          dict_lookup kvs ''openapi'' = Some (PStr ''3.0.3'') \<and>
          dict_keys kvs = [''openapi'', ''info'', ''servers'', ''paths'', ''components''] \<and>
          (case dict_lookup kvs ''components'' of
             Some (PDict components) \<Rightarrow>
               dict_has components ''schemas'' \<and> dict_has components ''securitySchemes''
           | _ \<Rightarrow> False)
      | _ \<Rightarrow> False)"


text \<open>
  The row \<^verbatim>\<open>("oauth", "POST", "/oauth/token", ...)\<close> of the sample table as an
  endpoint, and the state of the sample generator before \<^verbatim>\<open>generate_openapi_spec\<close>.
\<close>

definition oauth_endpoint :: EndpointInfo where
  "oauth_endpoint =
     sample_endpoint (''oauth'', ''POST'', ''/oauth/token'', ''Get token'',
                      ''Obtain an access token'')"

definition sample_state :: generator where
  "sample_state = create_sample_endpoints (create_sample_entities init)"

definition comprehensive_state :: generator where
  "comprehensive_state = create_comprehensive_endpoints (create_comprehensive_entities init)"

text \<open>The fourth component of a row of \<^verbatim>\<open>entities_data\<close> is a boolean.\<close>

definition fourth_is_bool :: "more \<Rightarrow> bool" where
  "fourth_is_bool m = (case fourth m of Some v \<Rightarrow> is_bool v | None \<Rightarrow> False)"


text \<open>
  Concrete surroundings: a host that answers every request with the given value, a
  host that cannot be reached, and three entries of directory listings. The decoder
  of these surroundings knows two texts, \<open>LS0t\<close>, the base64 form of \<open>---\<close>, and
  \<open>LS0tYTogWy0tLWJvZHk=\<close>, the base64 form of \<open>---a: [---body\<close>; the front matter
  of the latter, \<open>a: [\<close>, opens a flow sequence and never closes it, which
  \<^verbatim>\<open>yaml.safe_load\<close> refuses with a YAML error. The loader of these
  surroundings knows that text and the empty one, which it reads as \<open>None\<close>.
\<close>

definition answering_env :: "pyval \<Rightarrow> docs_env" where
  "answering_env data =
     \<lparr>requests_get = (\<lambda>url. Got \<lparr>http_status = 200, http_json = Loaded data\<rparr>),
      b64decode_utf8 =
        (\<lambda>v. if v = PStr ''LS0t'' then Inr ''---''
             else if v = PStr ''LS0tYTogWy0tLWJvZHk='' then Inr ''---a: [---body''
             else Inl ValueError),
      yaml_load =
        (\<lambda>s. if s = ''a: ['' then Raised YAMLError
             else if s = [] then Loaded PNone
             else Raised ValueError),
      attr_matches = (\<lambda>s. []),
      param_matches = (\<lambda>s. []),
      path_stem = (\<lambda>s. takeWhile (\<lambda>c. c \<noteq> CHR ''.'') s),
      str_of = (\<lambda>v. [])\<rparr>"







text \<open>
  A path of three hundred characters: no file has such a name, and reading its status
  fails with the error of a name that is too long, which \<^verbatim>\<open>Path.exists()\<close>
  lets out.
\<close>

definition long_name_file :: file_input where
  "long_name_file =
     \<lparr>file_path = replicate 295 (CHR ''a'') @ ''.yaml'', path_exists = Inl OSError,
      path_suffix = ''.yaml'', yaml_safe_load = Raised OSError, json_load = Raised OSError\<rparr>"

definition malformed_yaml_file :: file_input where
  "malformed_yaml_file =
     \<lparr>file_path = ''mastodon-openapi.yaml'', path_exists = Inr True, path_suffix = ''.yaml'',
      yaml_safe_load = Raised YAMLError, json_load = Raised JSONDecodeError\<rparr>"

text \<open>The operation stored for a path and a method.\<close>

definition lookup2 ::
  "(string \<times> (string \<times> pyval) list) list \<Rightarrow> string \<Rightarrow> string \<Rightarrow> pyval option" where
  "lookup2 paths path method =
     (case dict_lookup paths path of None \<Rightarrow> None | Some ops \<Rightarrow> dict_lookup ops method)"

section \<open>Properties of the validator\<close>

lemma dict_has_lookup: "dict_has kvs k = (dict_lookup kvs k \<noteq> None)"
  by (induction kvs) auto

lemma is_str_hashable: "is_str v \<Longrightarrow> hashable v"
  by (cases v) auto

lemma set_fold_insert: "set (fold List.insert xs ys) = set xs \<union> set ys"
  by (induction xs arbitrary: ys) auto

lemma set_update_str:
  "(\<exists>tags'. set_update tags v = Inr tags' \<and> list_all is_str tags') =
     (list_all is_str tags \<and>
      (case v of PList xs \<Rightarrow> list_all is_str xs | PStr s \<Rightarrow> True | PDict d \<Rightarrow> True | _ \<Rightarrow> False))"
  by (cases v) (auto simp: set_update_def list_all_iff set_fold_insert dict_keys_def
      dest: is_str_hashable)

lemma collect_operations_step:
  "collect_operations tags (operation # operations) =
     (case operation of
        PDict kvs \<Rightarrow>
          (case dict_lookup kvs ''tags'' of
             None \<Rightarrow> collect_operations tags operations
           | Some v \<Rightarrow>
               (case set_update tags v of
                  Inl e \<Rightarrow> Inl e
                | Inr tags' \<Rightarrow> collect_operations tags' operations))
      | _ \<Rightarrow> collect_operations tags operations)"
  by (cases operation) (auto simp: dict_has_lookup split: option.splits)

lemma tags_listable_PDict:
  "tags_listable (PDict kvs) =
     (case dict_lookup kvs ''tags'' of
        None \<Rightarrow> True
      | Some v \<Rightarrow>
          (case v of PList xs \<Rightarrow> list_all is_str xs | PStr s \<Rightarrow> True | PDict d \<Rightarrow> True
           | _ \<Rightarrow> False))"
  by (auto split: option.splits pyval.splits)

lemma collect_operations_str:
  "(\<exists>tags'. collect_operations tags ops = Inr tags' \<and> list_all is_str tags') =
     (list_all is_str tags \<and> list_all tags_listable ops)"
proof (induction ops arbitrary: tags)
  case Nil
  show ?case by simp
next
  case (Cons operation operations)
  show ?case
  proof (cases operation)
    case (PDict kvs)
    show ?thesis
    proof (cases "dict_lookup kvs ''tags''")
      case None
      with PDict Cons show ?thesis
        by (simp add: collect_operations_step tags_listable_PDict del: collect_operations.simps tags_listable.simps)
    next
      case (Some v)
      have "(\<exists>tags'. collect_operations tags (operation # operations) = Inr tags' \<and> list_all is_str tags')
          = (\<exists>t. set_update tags v = Inr t \<and>
               (\<exists>tags'. collect_operations t operations = Inr tags' \<and> list_all is_str tags'))"
        using PDict Some
        by (auto simp: collect_operations_step simp del: collect_operations.simps split: sum.splits)
      also have "\<dots> = (\<exists>t. set_update tags v = Inr t \<and> list_all is_str t \<and>
                       list_all tags_listable operations)"
        by (simp only: Cons.IH)
      also have "\<dots> = ((\<exists>t. set_update tags v = Inr t \<and> list_all is_str t) \<and>
                       list_all tags_listable operations)"
        by blast
      also have "\<dots> = (list_all is_str tags \<and> list_all tags_listable (operation # operations))"
        using PDict Some
        by (simp only: set_update_str tags_listable_PDict list.pred_inject option.case) blast
      finally show ?thesis .
    qed
  qed (use Cons in \<open>simp_all add: collect_operations_step del: collect_operations.simps\<close>)
qed

lemma collect_tags_str:
  "(\<exists>tags'. collect_tags tags objs = Inr tags' \<and> list_all is_str tags') =
     (list_all is_str tags \<and> list_all path_item_ok objs)"
proof (induction objs arbitrary: tags)
  case Nil
  show ?case by simp
next
  case (Cons path_obj path_objs)
  show ?case
  proof (cases path_obj)
    case (PDict ops)
    have "(\<exists>tags'. collect_tags tags (path_obj # path_objs) = Inr tags' \<and> list_all is_str tags')
        = (\<exists>t. collect_operations tags (dict_values ops) = Inr t \<and>
             (\<exists>tags'. collect_tags t path_objs = Inr tags' \<and> list_all is_str tags'))"
      using PDict by (auto split: sum.splits)
    also have "\<dots> = (\<exists>t. collect_operations tags (dict_values ops) = Inr t \<and> list_all is_str t \<and>
                     list_all path_item_ok path_objs)"
      by (simp only: Cons.IH)
    also have "\<dots> = ((\<exists>t. collect_operations tags (dict_values ops) = Inr t \<and> list_all is_str t) \<and>
                     list_all path_item_ok path_objs)"
      by blast
    also have "\<dots> = (list_all is_str tags \<and> list_all path_item_ok (path_obj # path_objs))"
      using PDict by (simp only: collect_operations_str path_item_ok.simps list.pred_inject) blast
    finally show ?thesis .
  qed simp_all
qed

lemma tags_phase:
  "(snd (case collect_tags [] objs of
           Inl e \<Rightarrow> (r, Inl e)
         | Inr tags \<Rightarrow>
             (case join_sorted tags of
                Inl e \<Rightarrow> (r, Inl e)
              | Inr line \<Rightarrow> (r @ [Tags line], Inr True))) = Inr True)
   = list_all path_item_ok objs"
  using collect_tags_str [of "[]" objs]
  by (auto simp: join_sorted_def split: sum.splits if_splits)

lemma list_tags_True:
  "(snd (list_tags spec r) = Inr True) =
     (case spec of
        PDict kvs \<Rightarrow>
          (case dict_lookup kvs ''paths'' of
             Some (PDict items) \<Rightarrow> list_all path_item_ok (dict_values items)
           | _ \<Rightarrow> False)
      | _ \<Rightarrow> False)"
  unfolding list_tags_def
  by (cases spec) (auto simp: tags_phase split: option.splits pyval.splits)

lemma py_len_Inr: "py_len v = Inr n \<Longrightarrow> sized v"
  by (cases v) auto

lemma py_len_Inl: "py_len v = Inl e \<Longrightarrow> \<not> sized v"
  by (cases v) auto

lemma count_components_ok:
  "(\<exists>n m. count_components (PDict kvs) = Inr (n, m)) =
     ((case dict_lookup kvs ''paths'' of None \<Rightarrow> True | Some p \<Rightarrow> sized p) \<and>
      (case dict_lookup kvs ''components'' of
         None \<Rightarrow> True
       | Some (PDict c) \<Rightarrow>
           (case dict_lookup c ''schemas'' of None \<Rightarrow> True | Some s \<Rightarrow> sized s)
       | Some v \<Rightarrow> False))"
  unfolding count_components_def
  by (auto split: option.splits pyval.splits sum.splits dest: py_len_Inr py_len_Inl)

lemma validate_loaded_True:
  "(snd (validate_loaded spec) = Inr True) = (has_required_items spec \<and> report_ok spec)"
proof (cases spec)
  case (PDict kvs)
  show ?thesis
    unfolding PDict validate_loaded_def
    using count_components_ok [of kvs] list_tags_True [of "PDict kvs"]
    by (auto simp: check_fields_def print_report_def dict_has_lookup split: option.splits sum.splits pyval.splits if_splits prod.splits)
qed (auto simp: validate_loaded_def check_fields_def split: sum.splits option.splits if_splits)

lemma validate_openapi_spec_result:
  "path_exists f = Inr found \<Longrightarrow>
     snd (validate_openapi_spec f) = Inr (found \<and> snd (try_block f) = Inr True)"
  by (cases "try_block f"; cases "snd (try_block f)")
     (auto simp: validate_openapi_spec_def)

lemma try_block_loaded:
  "(snd (try_block f) = Inr True) =
     (case loaded_document f of None \<Rightarrow> False | Some spec \<Rightarrow> snd (validate_loaded spec) = Inr True)"
  by (auto simp: try_block_def loaded_document_def split: load_result.splits)


lemma lower_json: "lower ''.json'' = ''.json''"
  by (simp add: lower_def char_lower_def)





lemma list_tags_output:
  "snd (list_tags spec r) = Inr True \<Longrightarrow> \<exists>line. fst (list_tags spec r) = r @ [Tags line]"
  by (auto simp: list_tags_def split: sum.splits)

lemma print_report_output:
  "print_report spec n m = (r, None) \<Longrightarrow>
     \<exists>ver title version.
       r = [SpecValid, Version ver, Title title, ApiVersion version, PathsCount n, SchemasCount m]"
  by (auto simp: print_report_def split: sum.splits)

lemma entries_py_len: "py_len v = Inr n \<Longrightarrow> entries v = n"
  by (cases v) auto

lemma count_components_value:
  "count_components (PDict kvs) = Inr (n, m) \<Longrightarrow> dict_lookup kvs ''paths'' = Some (PDict items)
     \<Longrightarrow> n = length items \<and> m = schema_entries kvs"
  by (auto simp: count_components_def schema_entries_def
      split: sum.splits option.splits pyval.splits dest: entries_py_len)

lemma validate_loaded_phases:
  "snd (validate_loaded spec) = Inr True \<Longrightarrow>
     \<exists>n m r. count_components spec = Inr (n, m) \<and> print_report spec n m = (r, None) \<and>
       validate_loaded spec = list_tags spec r"
  by (auto simp: validate_loaded_def split: sum.splits option.splits prod.splits)

text \<open>
  Claim C3. When the validator accepts a file, the report it has printed gives as the path
  count the number of entries of the document's \<open>paths\<close> mapping and as the schema
  count the number of entries of \<open>components.schemas\<close>, which is 0 when \<open>components\<close>
  or \<open>schemas\<close> is absent.
\<close>

theorem validate_openapi_spec_counts:
  assumes "snd (validate_openapi_spec f) = Inr True"
  shows "\<exists>kvs items ver title version line.
           loaded_document f = Some (PDict kvs) \<and>
           dict_lookup kvs ''paths'' = Some (PDict items) \<and>
           fst (validate_openapi_spec f) =
             [SpecValid, Version ver, Title title, ApiVersion version,
              PathsCount (length items), SchemasCount (schema_entries kvs), Tags line]"
proof -
  from assms have ex: "path_exists f = Inr True"
    by (cases "path_exists f") (auto simp: validate_openapi_spec_def split: if_splits)
  with assms have tb: "snd (try_block f) = Inr True"
    by (simp add: validate_openapi_spec_result)
  from tb obtain spec where ld: "loaded_document f = Some spec"
    and vl: "snd (validate_loaded spec) = Inr True"
    by (auto simp: try_block_loaded split: option.splits)
  from ld have tbv: "try_block f = validate_loaded spec"
    by (auto simp: try_block_def loaded_document_def split: load_result.splits if_splits)
  from vl have "has_required_items spec" and "report_ok spec"
    by (simp_all add: validate_loaded_True)
  then obtain kvs items where spec: "spec = PDict kvs"
    and items: "dict_lookup kvs ''paths'' = Some (PDict items)"
    by (cases spec) (auto split: option.splits pyval.splits)
  from validate_loaded_phases [OF vl] obtain n m r
    where cc: "count_components spec = Inr (n, m)"
      and pr: "print_report spec n m = (r, None)"
      and lt: "validate_loaded spec = list_tags spec r"
    by blast
  from cc items have nm: "n = length items" "m = schema_entries kvs"
    using count_components_value [of kvs n m items] by (simp_all add: spec)
  from print_report_output [OF pr] obtain ver title version
    where r: "r = [SpecValid, Version ver, Title title, ApiVersion version,
                   PathsCount n, SchemasCount m]"
    by blast
  from vl lt have "snd (list_tags spec r) = Inr True" by simp
  from list_tags_output [OF this] obtain line
    where out: "fst (list_tags spec r) = r @ [Tags line]"
    by blast
  have "fst (validate_openapi_spec f) = fst (try_block f)"
    using ex tb by (cases "try_block f") (auto simp: validate_openapi_spec_def)
  with tbv lt out r nm have
    "fst (validate_openapi_spec f) =
       [SpecValid, Version ver, Title title, ApiVersion version,
        PathsCount (length items), SchemasCount (schema_entries kvs), Tags line]"
    by simp
  with ld items spec show ?thesis by blast
qed

lemma validate_minimal_doc:
  "validate_openapi_spec (json_file minimal_doc) =
     ([SpecValid, Version (PStr ''3.0.3''), Title (PStr ''Mastodon API''),
       ApiVersion (PStr ''4.3.0''), PathsCount 1, SchemasCount 2, Tags ''instance''],
      Inr True)"
  by (simp add: json_file_def minimal_doc_def validate_openapi_spec_def try_block_def
        lower_json validate_loaded_def check_fields_def count_components_def
        print_report_def list_tags_def dict_values_def set_update_def join_sorted_def)

theorem validate_openapi_spec_counts_witness:
  "snd (validate_openapi_spec (json_file minimal_doc)) = Inr True \<and>
   (\<exists>kvs items ver title version line.
      loaded_document (json_file minimal_doc) = Some (PDict kvs) \<and>
      dict_lookup kvs ''paths'' = Some (PDict items) \<and>
      fst (validate_openapi_spec (json_file minimal_doc)) =
        [SpecValid, Version ver, Title title, ApiVersion version,
         PathsCount (length items), SchemasCount (schema_entries kvs), Tags line])"
proof -
  have acc: "snd (validate_openapi_spec (json_file minimal_doc)) = Inr True"
    by (simp add: validate_minimal_doc)
  from acc validate_openapi_spec_counts [OF acc] show ?thesis by blast
qed

text \<open>
  Claim C8, as the code has it. Whenever \<^verbatim>\<open>Path.exists()\<close> returns,
  \<^verbatim>\<open>validate_openapi_spec\<close> returns a boolean: whatever the \<^verbatim>\<open>try\<close> block
  raises, one of the three handlers prints its line and the function returns \<open>False\<close>.
  The test of \<^verbatim>\<open>path.exists()\<close> stands before the \<^verbatim>\<open>try\<close> block: an exception
  it raises leaves the function, and nothing is printed.
\<close>

theorem validate_openapi_spec_total:
  "(path_exists f = Inr found \<longrightarrow> (\<exists>b. snd (validate_openapi_spec f) = Inr b)) \<and>
   (path_exists f = Inr True \<and> try_block f = (outs, Inl e) \<longrightarrow>
      validate_openapi_spec f = (outs @ [handler e], Inr False)) \<and>
   (path_exists f = Inl e' \<longrightarrow> validate_openapi_spec f = ([], Inl e'))"
  by (cases "try_block f"; cases "snd (try_block f)")
     (auto simp: validate_openapi_spec_def)

theorem validate_openapi_spec_total_witness:
  "path_exists (json_file PNone) = Inr True \<and>
   try_block (json_file PNone) = ([], Inl TypeError) \<and>
   validate_openapi_spec (json_file PNone) = ([ValidationError TypeError], Inr False) \<and>
   validate_openapi_spec (json_file (PList [PStr ''openapi'', PStr ''info'', PStr ''paths'']))
     = ([ValidationError TypeError], Inr False) \<and>
   validate_openapi_spec (json_file (PDict [(''openapi'', PFloat 3 0), (''info'', PDict []),
       (''paths'', PDict [])]))
     = ([ValidationError AttributeError], Inr False) \<and>
   validate_openapi_spec (json_file (PDict [(''openapi'', PStr ''3.0.3''),
       (''info'', PDict [(''title'', PStr ''T''), (''version'', PStr ''1'')]),
       (''paths'', PDict [(''/a'', PInt 5)])]))
     = ([SpecValid, Version (PStr ''3.0.3''), Title (PStr ''T''), ApiVersion (PStr ''1''),
         PathsCount 1, SchemasCount 0, ValidationError AttributeError], Inr False) \<and>
   path_exists (malformed_yaml_file\<lparr>path_exists := Inl OSError\<rparr>) = Inl OSError \<and>
   validate_openapi_spec (malformed_yaml_file\<lparr>path_exists := Inl OSError\<rparr>)
     = ([], Inl OSError)"
proof -
  have ex: "path_exists (json_file PNone) = Inr True"
    by (simp add: json_file_def)
  have tb: "try_block (json_file PNone) = ([], Inl TypeError)"
    by (simp add: json_file_def try_block_def lower_json validate_loaded_def check_fields_def)
  from validate_openapi_spec_total [of "json_file PNone" True "[]" TypeError] ex tb
  have a: "validate_openapi_spec (json_file PNone) = ([ValidationError TypeError], Inr False)"
    by simp
  from validate_openapi_spec_total
         [of "malformed_yaml_file\<lparr>path_exists := Inl OSError\<rparr>" True "[]" TypeError OSError]
  have b: "validate_openapi_spec (malformed_yaml_file\<lparr>path_exists := Inl OSError\<rparr>)
             = ([], Inl OSError)"
    by simp
  from a b ex tb show ?thesis
    by (simp add: json_file_def validate_openapi_spec_def try_block_def
          lower_json validate_loaded_def check_fields_def count_components_def
          print_report_def list_tags_def dict_values_def)
qed

text \<open>
  The call does not return for every path: for a name of three hundred characters
  \<^verbatim>\<open>Path.exists()\<close> raises, and the exception leaves \<^verbatim>\<open>validate_openapi_spec\<close>
  before anything is printed.
\<close>

theorem validate_openapi_spec_exists_raises:
  "length (file_path long_name_file) = 300 \<and>
   path_exists long_name_file = Inl OSError \<and>
   validate_openapi_spec long_name_file = ([], Inl OSError) \<and>
   (\<nexists>b. snd (validate_openapi_spec long_name_file) = Inr b)"
  by (simp add: long_name_file_def validate_openapi_spec_def)

section \<open>Properties of the generators\<close>

lemma dict_set_same [simp]: "dict_set (dict_set kvs k v) k w = dict_set kvs k w"
  by (induction kvs) auto

lemma dict_lookup_set: "dict_lookup (dict_set kvs k v) k' = (if k' = k then Some v else dict_lookup kvs k')"
  by (induction kvs) auto

lemma set_schema:
  "set_in [''components'', ''schemas''] name x (assemble i s p sc ss)
     = Inr (assemble i s p (dict_set sc name x) ss)"
  by (simp add: assemble_def)

lemma set_schema_key:
  "dict_lookup sc name = Some (PDict d) \<Longrightarrow>
   set_in [''components'', ''schemas'', name] k x (assemble i s p sc ss)
     = Inr (assemble i s p (dict_set sc name (PDict (dict_set d k x))) ss)"
  by (simp add: assemble_def)

lemma props_loop_snd:
  "snd (props_loop f props (ps, rs)) = rs @ required_names props"
  by (induction props arbitrary: ps rs) (auto simp: required_names_def)

lemma add_entity_assemble:
  "add_entity f name e (assemble i s p sc ss)
     = Inr (assemble i s p (dict_set sc name (entity_schema f e)) ss)"
proof -
  obtain ps rs where loop: "props_loop f (entity_properties e) ([], []) = (ps, rs)"
    by (cases "props_loop f (entity_properties e) ([], [])")
  from loop have rs: "rs = required_names (entity_properties e)"
    using props_loop_snd [of f "entity_properties e" "[]" "[]"] by simp
  from loop have ps: "ps = fst (props_loop f (entity_properties e) ([], []))"
    by simp
  show ?thesis
    unfolding add_entity_def loop
    by (simp add: set_schema set_schema_key dict_lookup_set entity_schema_def rs ps)
qed

lemma add_entities_assemble:
  "add_entities f es (assemble i s p sc ss)
     = Inr (assemble i s p (schemas_of f es sc) ss)"
  by (induction es arbitrary: sc) (auto simp: add_entity_assemble)

lemma dict_lookup_path_items:
  "dict_lookup (path_items pp) k = map_option PDict (dict_lookup pp k)"
  by (induction pp) (auto simp: path_items_def)

lemma dict_has_path_items: "dict_has (path_items pp) k = dict_has pp k"
  by (induction pp) (auto simp: path_items_def)

lemma dict_set_path_items:
  "dict_set (path_items pp) k (PDict ops) = path_items (dict_set pp k ops)"
  by (induction pp) (auto simp: path_items_def)

lemma add_endpoint_assemble:
  "add_endpoint tp mo ep (assemble i s (path_items pp) sc ss)
     = Inr (assemble i s (path_items (add_operation pp (tp (ep_path ep)) (ep_method ep) (mo ep))) sc ss)"
proof (cases "dict_lookup pp (tp (ep_path ep))")
  case None
  then show ?thesis
    by (simp add: add_endpoint_def assemble_def dict_has_path_items dict_has_lookup
          dict_lookup_path_items dict_lookup_set dict_set_path_items add_operation_def Let_def)
next
  case (Some ops)
  then show ?thesis
    by (simp add: add_endpoint_def assemble_def dict_has_path_items dict_has_lookup
          dict_lookup_path_items dict_lookup_set dict_set_path_items add_operation_def Let_def)
qed

lemma add_endpoints_assemble:
  "add_endpoints tp mo eps (assemble i s (path_items pp) sc ss)
     = Inr (assemble i s (path_items (paths_of tp mo eps pp)) sc ss)"
  by (induction eps arbitrary: pp) (auto simp: add_endpoint_assemble)

lemma generate_from_assemble:
  "generate_from (assemble i s [] [] ss) f tp mo g
     = Inr (assemble i s (path_items (paths_of tp mo (endpoints g) []))
              (schemas_of f (entities g) []) ss)"
  using add_endpoints_assemble [of tp mo "endpoints g" i s "[]"]
  by (simp add: generate_from_def add_entities_assemble path_items_def)

lemma sample_literal_assemble:
  "sample_literal = assemble (info_literal ''API for Mastodon, a decentralized social network'')
      servers_literal [] [] sample_security_schemes"
  by (simp add: sample_literal_def assemble_def)

lemma comprehensive_literal_assemble:
  "comprehensive_literal = assemble (info_literal
      ''The Mastodon REST API. Please see https://docs.joinmastodon.org/api/ for more details.'')
      servers_literal [] [] comprehensive_security_schemes"
  by (simp add: comprehensive_literal_def assemble_def)

lemma sample_generate_assemble:
  "sample_generate_openapi_spec g =
     Inr (assemble (info_literal ''API for Mastodon, a decentralized social network'')
            servers_literal
            (path_items (paths_of sample_openapi_path sample_operation (endpoints g) []))
            (schemas_of sample_prop_schema (entities g) []) sample_security_schemes)"
  by (simp only: sample_generate_openapi_spec_def sample_literal_assemble generate_from_assemble)

lemma comprehensive_generate_assemble:
  "comprehensive_generate_openapi_spec g =
     Inr (assemble (info_literal
            ''The Mastodon REST API. Please see https://docs.joinmastodon.org/api/ for more details.'')
            servers_literal
            (path_items (paths_of comprehensive_openapi_path comprehensive_operation (endpoints g) []))
            (schemas_of comprehensive_prop_schema (entities g) []) comprehensive_security_schemes)"
  by (simp only: comprehensive_generate_openapi_spec_def comprehensive_literal_assemble
        generate_from_assemble)

lemma scraper_generate_assemble:
  "scraper_generate_openapi_spec g =
     Inr (assemble (info_literal ''API for Mastodon, a decentralized social network'')
            servers_literal
            (path_items (paths_of (\<lambda>path. path) scraper_operation (endpoints g) []))
            (schemas_of scraper_prop_schema (entities g) []) sample_security_schemes)"
  by (simp only: scraper_generate_openapi_spec_def sample_literal_assemble generate_from_assemble)

lemma top_level_ok_assemble: "top_level_ok (assemble i s p sc ss)"
  by (simp add: top_level_ok_def assemble_def dict_keys_def)

text \<open>
  Claim C4. For every state of the generator, \<^verbatim>\<open>generate_openapi_spec\<close> of each of the
  three scripts returns a specification (no subscript of the loops raises) whose
  \<open>openapi\<close> is \<open>3.0.3\<close>, whose top-level keys are \<open>openapi\<close>, \<open>info\<close>, \<open>servers\<close>,
  \<open>paths\<close> and \<open>components\<close>, and whose \<open>components\<close> has the keys \<open>schemas\<close> and
  \<open>securitySchemes\<close>.
\<close>

theorem generate_openapi_spec_top_level:
  "(\<exists>spec. sample_generate_openapi_spec g = Inr spec \<and> top_level_ok spec) \<and>
   (\<exists>spec. comprehensive_generate_openapi_spec g = Inr spec \<and> top_level_ok spec) \<and>
   (\<exists>spec. scraper_generate_openapi_spec g = Inr spec \<and> top_level_ok spec)"
  by (simp add: sample_generate_assemble comprehensive_generate_assemble
        scraper_generate_assemble top_level_ok_assemble)

lemma schemas_of_other:
  "n \<notin> fst ` set es \<Longrightarrow> dict_lookup (schemas_of f es sc) n = dict_lookup sc n"
  by (induction es arbitrary: sc) (auto simp: dict_lookup_set)

lemma schemas_of_lookup:
  "distinct (map fst es) \<Longrightarrow> (n, e) \<in> set es \<Longrightarrow>
     dict_lookup (schemas_of f es sc) n = Some (entity_schema f e)"
proof (induction es arbitrary: sc)
  case Nil
  then show ?case by simp
next
  case (Cons a es)
  obtain n' e' where a: "a = (n', e')" by (cases a)
  show ?case
  proof (cases "(n, e) = a")
    case True
    with Cons.prems a have "n \<notin> fst ` set es" by auto
    with True a show ?thesis by (simp add: schemas_of_other dict_lookup_set)
  next
    case False
    with Cons.prems a have "(n, e) \<in> set es" "distinct (map fst es)" by auto
    with Cons.IH a show ?thesis by simp
  qed
qed

lemma get_schema:
  "dict_lookup sc n = Some v \<Longrightarrow>
     get_in [''components'', ''schemas'', n] (assemble i s p sc ss) = Inr v"
  by (simp add: assemble_def)

lemma flags_consistent_required:
  assumes "flags_consistent props" "p \<in> set props"
  shows "(prop_name p \<in> set (required_names props)) = prop_required p"
proof
  assume "prop_name p \<in> set (required_names props)"
  then obtain q where q: "q \<in> set props" "prop_required q" "prop_name q = prop_name p"
    unfolding required_names_def by auto
  from assms have "prop_name q \<noteq> prop_name p \<or> prop_required q = prop_required p"
    using q(1) unfolding flags_consistent_def list_all_iff by blast
  with q show "prop_required p" by blast
next
  assume "prop_required p"
  with assms(2) have "p \<in> set (filter prop_required props)" by simp
  then show "prop_name p \<in> set (required_names props)"
    unfolding required_names_def by (simp only: set_map) (rule imageI)
qed

lemma required_matches_entity_schema:
  assumes "flags_consistent (entity_properties e)"
  shows "\<exists>sch. entity_schema f e = PDict sch \<and> required_matches (entity_properties e) sch"
proof (cases "required_names (entity_properties e) = []")
  case True
  then have none: "\<forall>p \<in> set (entity_properties e). \<not> prop_required p"
    by (auto simp: required_names_def filter_empty_conv)
  with True show ?thesis
    by (simp add: entity_schema_def required_matches_def required_list_def
          list_all_iff list_ex_iff)
next
  case False
  then have some: "\<exists>p \<in> set (entity_properties e). prop_required p"
    by (auto simp: required_names_def filter_empty_conv)
  have "\<forall>p \<in> set (entity_properties e).
          (PStr (prop_name p) \<in> PStr ` set (required_names (entity_properties e))) = prop_required p"
    using flags_consistent_required [OF assms] by auto
  with False some show ?thesis
    by (simp add: entity_schema_def required_matches_def required_list_def
          list_all_iff list_ex_iff)
qed

lemma required_general:
  assumes "distinct (map fst (entities g))" "(n, e) \<in> set (entities g)"
    "flags_consistent (entity_properties e)"
  shows "\<exists>sch. get_in [''components'', ''schemas'', n]
                 (assemble i s p (schemas_of f (entities g) []) ss) = Inr (PDict sch) \<and>
               required_matches (entity_properties e) sch"
proof -
  from required_matches_entity_schema [OF assms(3), of f] obtain sch
    where sch: "entity_schema f e = PDict sch" "required_matches (entity_properties e) sch"
    by blast
  from schemas_of_lookup [OF assms(1) assms(2), of f "[]"] sch(1)
  have "dict_lookup (schemas_of f (entities g) []) n = Some (PDict sch)" by simp
  from get_schema [OF this] sch(2) show ?thesis by blast
qed

lemma sample_table_consistent: "table_consistent (entities (create_sample_entities init))"
  by code_simp

lemma comprehensive_table_consistent:
  "table_consistent (entities (create_comprehensive_entities init))"
  by code_simp

lemma scraped_required: "prop_required (scraped_property groups)"
  by (cases groups) (simp add: scraped_property_def new_PropertyInfo_def Let_def)

lemma all_required_consistent: "list_all prop_required props \<Longrightarrow> flags_consistent props"
  unfolding flags_consistent_def list_all_iff by blast

lemma dict_set_keys:
  "map fst (dict_set kvs k v) = (if k \<in> set (map fst kvs) then map fst kvs else map fst kvs @ [k])"
  by (induction kvs) force+

lemma dict_set_all:
  "list_all P kvs \<Longrightarrow> P (k, v) \<Longrightarrow> list_all P (dict_set kvs k v)"
  by (induction kvs) auto

lemma set_entity_consistent:
  assumes "table_consistent (entities g)" "flags_consistent (entity_properties e)"
  shows "table_consistent (entities (set_entity n e g))"
proof -
  from assms(1) have d: "distinct (map fst (entities g))"
    and a: "list_all (\<lambda>entry. flags_consistent (entity_properties (snd entry))) (entities g)"
    by (simp_all add: table_consistent_def)
  from d have "distinct (map fst (dict_set (entities g) n e))"
    by (simp add: dict_set_keys)
  moreover from a assms(2)
  have "list_all (\<lambda>entry. flags_consistent (entity_properties (snd entry)))
          (dict_set (entities g) n e)"
    by (intro dict_set_all) simp_all
  ultimately show ?thesis
    by (simp add: table_consistent_def set_entity_def)
qed

lemma entity_of_content_consistent:
  "entity_of_content env file content = Inr (Some e) \<Longrightarrow> flags_consistent (entity_properties e)"
  by (auto simp: entity_of_content_def list_all_iff scraped_required
      split: sum.splits prod.splits intro!: all_required_consistent)

lemma parse_entity_consistent:
  "snd (parse_entity env file) = Inr (Some e) \<Longrightarrow> flags_consistent (entity_properties e)"
  by (auto simp: parse_entity_def split: prod.splits option.splits if_splits
      dest: entity_of_content_consistent)

lemma entity_step_consistent:
  assumes "table_consistent (entities g)" "snd (entity_step env x g) = Inr g'"
  shows "table_consistent (entities g')"
proof (cases "md_file_name x")
  case (Inl e)
  with assms(2) show ?thesis by (simp add: entity_step_def)
next
  case (Inr name_opt)
  show ?thesis
  proof (cases name_opt)
    case None
    with Inr assms show ?thesis by (simp add: entity_step_def)
  next
    case (Some name)
    obtain logs r where pe: "parse_entity env name = (logs, r)"
      by (cases "parse_entity env name")
    show ?thesis
    proof (cases r)
      case (Inl e)
      with Inr Some pe assms(2) show ?thesis by (simp add: entity_step_def)
    next
      case r: (Inr parsed)
      show ?thesis
      proof (cases parsed)
        case None
        with Inr Some pe r assms show ?thesis by (simp add: entity_step_def)
      next
        case (Some parsed_entity)
        with pe r have "snd (parse_entity env name) = Inr (Some parsed_entity)" by simp
        then have "flags_consistent (entity_properties parsed_entity)"
          by (rule parse_entity_consistent)
        with assms(1)
        have "table_consistent
                (entities (set_entity (entity_name parsed_entity) parsed_entity g))"
          by (rule set_entity_consistent)
        moreover from Inr \<open>name_opt = Some name\<close> pe r Some assms(2)
        have "g' = set_entity (entity_name parsed_entity) parsed_entity g"
          by (simp add: entity_step_def)
        ultimately show ?thesis by simp
      qed
    qed
  qed
qed

lemma entities_loop_consistent:
  "table_consistent (entities g) \<Longrightarrow> snd (entities_loop env xs g) = Inr g' \<Longrightarrow>
     table_consistent (entities g')"
proof (induction xs arbitrary: g)
  case Nil
  then show ?case by simp
next
  case (Cons x xs)
  obtain logs r where step: "entity_step env x g = (logs, r)" by (cases "entity_step env x g")
  show ?case
  proof (cases r)
    case (Inl e)
    with Cons.prems step show ?thesis by simp
  next
    case (Inr g1)
    with step Cons.prems(1) have "table_consistent (entities g1)"
      using entity_step_consistent [of g env x g1] by simp
    moreover from Cons.prems(2) step Inr have "snd (entities_loop env xs g1) = Inr g'"
      by (simp split: prod.splits)
    ultimately show ?thesis by (rule Cons.IH)
  qed
qed

lemma parse_all_entities_consistent:
  "snd (parse_all_entities env init) = Inr g' \<Longrightarrow> table_consistent (entities g')"
proof -
  assume a: "snd (parse_all_entities env init) = Inr g'"
  have i: "table_consistent (entities init)"
    by (simp add: init_def table_consistent_def)
  from a have "\<exists>items. snd (entities_loop env items init) = Inr g'"
    by (auto simp: parse_all_entities_def split: prod.splits sum.splits
        intro: exI [where x = "snd (entities_loop env _ init)"])
       (metis snd_conv)
  then obtain items where "snd (entities_loop env items init) = Inr g'" ..
  with i show ?thesis by (rule entities_loop_consistent)
qed

lemma table_consistent_entry:
  "table_consistent table \<Longrightarrow> (n, e) \<in> set table \<Longrightarrow>
     distinct (map fst table) \<and> flags_consistent (entity_properties e)"
  by (auto simp: table_consistent_def list_all_iff)

text \<open>
  Claim C5. For every entity of the table and every property of it, the name of the
  property is in the \<open>required\<close> list of the emitted schema exactly when the property is
  flagged required, and the schema has the key \<open>required\<close> exactly when some property is
  flagged required. This holds for each of the three scripts on every table that is a
  mapping whose entities do not flag one name in two ways, and the tables of the scripts
  are such: the two hardcoded ones, and every table the scraping script parses, where
  each property is flagged required.
\<close>

theorem required_iff_flagged:
  "(table_consistent (entities g) \<and> (n, e) \<in> set (entities g) \<longrightarrow>
      (\<exists>spec sch. sample_generate_openapi_spec g = Inr spec \<and>
         get_in [''components'', ''schemas'', n] spec = Inr (PDict sch) \<and>
         required_matches (entity_properties e) sch) \<and>
      (\<exists>spec sch. comprehensive_generate_openapi_spec g = Inr spec \<and>
         get_in [''components'', ''schemas'', n] spec = Inr (PDict sch) \<and>
         required_matches (entity_properties e) sch) \<and>
      (\<exists>spec sch. scraper_generate_openapi_spec g = Inr spec \<and>
         get_in [''components'', ''schemas'', n] spec = Inr (PDict sch) \<and>
         required_matches (entity_properties e) sch)) \<and>
   table_consistent (entities (create_sample_entities init)) \<and>
   table_consistent (entities (create_comprehensive_entities init)) \<and>
   (snd (parse_all_entities env init) = Inr g' \<longrightarrow> table_consistent (entities g'))"
proof -
  have general: "\<exists>sch. get_in [''components'', ''schemas'', n]
                   (assemble i s p (schemas_of f (entities g) []) ss) = Inr (PDict sch) \<and>
                 required_matches (entity_properties e) sch"
    if "table_consistent (entities g)" "(n, e) \<in> set (entities g)" for i s p f ss
  proof -
    from table_consistent_entry [OF that]
    have "distinct (map fst (entities g))" "flags_consistent (entity_properties e)"
      by simp_all
    from required_general [OF this(1) that(2) this(2)] show ?thesis .
  qed
  show ?thesis
    using general
    by (simp add: sample_generate_assemble comprehensive_generate_assemble
          scraper_generate_assemble sample_table_consistent comprehensive_table_consistent
          parse_all_entities_consistent)
qed

lemma sample_error_entry: "(''Error'', sample_error) \<in> set (entities (create_sample_entities init))"
  by code_simp

theorem required_iff_flagged_witness:
  "table_consistent (entities (create_sample_entities init)) \<and>
   (''Error'', sample_error) \<in> set (entities (create_sample_entities init)) \<and>
   (\<exists>spec sch. sample_generate_openapi_spec (create_sample_entities init) = Inr spec \<and>
      get_in [''components'', ''schemas'', ''Error''] spec = Inr (PDict sch) \<and>
      required_matches (entity_properties sample_error) sch)"
  using required_iff_flagged [of "create_sample_entities init" "''Error''" sample_error
          undefined undefined]
    sample_table_consistent sample_error_entry
  by blast

lemma operation_base_no_security: "\<not> dict_has (operation_base ep) ''security''"
  by (simp add: operation_base_def Let_def dict_has_lookup dict_lookup_set)

lemma dict_has_set: "dict_has (dict_set kvs k v) k' = (k' = k \<or> dict_has kvs k')"
  by (simp add: dict_has_lookup dict_lookup_set)

lemma sample_operation_security:
  "\<exists>op. sample_operation ep = PDict op \<and>
     dict_has op ''security'' =
       ((\<not> startswith (ep_path ep) ''/oauth'' \<and> ep_method ep \<noteq> ''get'') \<or>
        str_contains (ep_path ep) ''timeline'')"
  by (simp add: sample_operation_def Let_def dict_has_set operation_base_no_security)

lemma lookup2_add_operation:
  "lookup2 (add_operation pp k m op) k' m' =
     (if k' = k \<and> m' = m then Some op else lookup2 pp k' m')"
  by (auto simp: lookup2_def add_operation_def dict_lookup_set split: option.splits)

lemma paths_of_other:
  "(k, m) \<notin> (\<lambda>ep. (tp (ep_path ep), ep_method ep)) ` set eps \<Longrightarrow>
     lookup2 (paths_of tp mo eps pp) k m = lookup2 pp k m"
  by (induction eps arbitrary: pp) (auto simp: lookup2_add_operation)

lemma paths_of_lookup:
  "distinct (map (\<lambda>ep. (tp (ep_path ep), ep_method ep)) eps) \<Longrightarrow> ep \<in> set eps \<Longrightarrow>
     lookup2 (paths_of tp mo eps pp) (tp (ep_path ep)) (ep_method ep) = Some (mo ep)"
proof (induction eps arbitrary: pp)
  case Nil
  then show ?case by simp
next
  case (Cons a eps)
  show ?case
  proof (cases "ep = a")
    case True
    with Cons.prems have "(tp (ep_path a), ep_method a)
        \<notin> (\<lambda>ep. (tp (ep_path ep), ep_method ep)) ` set eps"
      by auto
    with True show ?thesis
      by (simp add: paths_of_other lookup2_add_operation)
  next
    case False
    with Cons.prems have "ep \<in> set eps"
      "distinct (map (\<lambda>ep. (tp (ep_path ep), ep_method ep)) eps)"
      by auto
    with Cons.IH show ?thesis by simp
  qed
qed

lemma get_operation:
  "lookup2 pp k m = Some op \<Longrightarrow>
     get_in [''paths'', k, m] (assemble i s (path_items pp) sc ss) = Inr op"
  by (auto simp: lookup2_def assemble_def dict_lookup_path_items split: option.splits)

lemma oauth_endpoint_entry: "oauth_endpoint \<in> set (endpoints (create_sample_endpoints init))"
  by code_simp

lemma oauth_endpoint_key:
  "sample_openapi_path (ep_path oauth_endpoint) = ''/oauth/token'' \<and>
   ep_method oauth_endpoint = ''post''"
  by code_simp

lemma oauth_no_security: "\<not> has_security (sample_operation oauth_endpoint)"
  by code_simp

text \<open>
  Claim C9. In the sample generator the operation of an endpoint has the key \<open>security\<close>
  exactly when its path does not start with \<open>/oauth\<close> and its method is not \<open>get\<close>, or
  its path contains \<open>timeline\<close>. The operation is emitted under its path and method
  when no other endpoint of the table has the same path and method, as in the sample
  table. There, \<open>POST /oauth/token\<close> has no \<open>security\<close>, the two timeline operations
  have it, and no other \<open>GET\<close> operation has it.
\<close>

theorem sample_security_condition:
  "(\<exists>op. sample_operation ep = PDict op \<and>
      dict_has op ''security'' =
        ((\<not> startswith (ep_path ep) ''/oauth'' \<and> ep_method ep \<noteq> ''get'') \<or>
         str_contains (ep_path ep) ''timeline'')) \<and>
   (distinct (map sample_key (endpoints g)) \<and> ep \<in> set (endpoints g) \<longrightarrow>
      (\<exists>spec. sample_generate_openapi_spec g = Inr spec \<and>
         get_in [''paths'', sample_openapi_path (ep_path ep), ep_method ep] spec
           = Inr (sample_operation ep))) \<and>
   distinct (map sample_key (endpoints (create_sample_endpoints init))) \<and>
   map (\<lambda>ep. (ep_method ep, ep_path ep, has_security (sample_operation ep)))
       (endpoints (create_sample_endpoints init)) =
     [(''get'', ''/api/v1/accounts/:id'', False),
      (''post'', ''/api/v1/accounts'', True),
      (''patch'', ''/api/v1/accounts/update_credentials'', True),
      (''get'', ''/api/v1/statuses/:id'', False),
      (''post'', ''/api/v1/statuses'', True),
      (''delete'', ''/api/v1/statuses/:id'', True),
      (''get'', ''/api/v1/timelines/home'', True),
      (''get'', ''/api/v1/timelines/public'', True),
      (''get'', ''/api/v1/notifications'', False),
      (''get'', ''/api/v1/follow_requests'', False),
      (''post'', ''/api/v1/follow_requests/:id/authorize'', True),
      (''post'', ''/api/v1/follow_requests/:id/reject'', True),
      (''post'', ''/api/v1/media'', True),
      (''get'', ''/api/v1/polls/:id'', False),
      (''post'', ''/api/v1/polls/:id/votes'', True),
      (''get'', ''/api/v2/search'', False),
      (''get'', ''/api/v1/instance'', False),
      (''post'', ''/api/v1/apps'', True),
      (''post'', ''/oauth/token'', False),
      (''get'', ''/api/v1/streaming/user'', False)]"
proof -
  have emitted: "\<exists>spec. sample_generate_openapi_spec g = Inr spec \<and>
         get_in [''paths'', sample_openapi_path (ep_path ep), ep_method ep] spec
           = Inr (sample_operation ep)"
    if "distinct (map sample_key (endpoints g))" "ep \<in> set (endpoints g)"
  proof -
    from that(1) have "distinct (map (\<lambda>ep. (sample_openapi_path (ep_path ep), ep_method ep))
                                   (endpoints g))"
      by (simp add: sample_key_def [abs_def])
    from paths_of_lookup [OF this that(2), of sample_operation "[]"]
    have l: "lookup2 (paths_of sample_openapi_path sample_operation (endpoints g) [])
               (sample_openapi_path (ep_path ep)) (ep_method ep) = Some (sample_operation ep)" .
    show ?thesis
      unfolding sample_generate_assemble using get_operation [OF l] by blast
  qed
  have keys: "distinct (map sample_key (endpoints (create_sample_endpoints init)))"
    by code_simp
  have table: "map (\<lambda>ep. (ep_method ep, ep_path ep, has_security (sample_operation ep)))
       (endpoints (create_sample_endpoints init)) =
     [(''get'', ''/api/v1/accounts/:id'', False),
      (''post'', ''/api/v1/accounts'', True),
      (''patch'', ''/api/v1/accounts/update_credentials'', True),
      (''get'', ''/api/v1/statuses/:id'', False),
      (''post'', ''/api/v1/statuses'', True),
      (''delete'', ''/api/v1/statuses/:id'', True),
      (''get'', ''/api/v1/timelines/home'', True),
      (''get'', ''/api/v1/timelines/public'', True),
      (''get'', ''/api/v1/notifications'', False),
      (''get'', ''/api/v1/follow_requests'', False),
      (''post'', ''/api/v1/follow_requests/:id/authorize'', True),
      (''post'', ''/api/v1/follow_requests/:id/reject'', True),
      (''post'', ''/api/v1/media'', True),
      (''get'', ''/api/v1/polls/:id'', False),
      (''post'', ''/api/v1/polls/:id/votes'', True),
      (''get'', ''/api/v2/search'', False),
      (''get'', ''/api/v1/instance'', False),
      (''post'', ''/api/v1/apps'', True),
      (''post'', ''/oauth/token'', False),
      (''get'', ''/api/v1/streaming/user'', False)]"
    by code_simp
  from sample_operation_security [of ep] emitted keys table show ?thesis
    by blast
qed


theorem sample_security_condition_witness:
  "distinct (map sample_key (endpoints (create_sample_endpoints init))) \<and>
   oauth_endpoint \<in> set (endpoints (create_sample_endpoints init)) \<and>
   (\<exists>spec. sample_generate_openapi_spec (create_sample_endpoints init) = Inr spec \<and>
      get_in [''paths'', ''/oauth/token'', ''post''] spec = Inr (sample_operation oauth_endpoint)) \<and>
   \<not> has_security (sample_operation oauth_endpoint)"
  using sample_security_condition [of oauth_endpoint "create_sample_endpoints init"]
    oauth_endpoint_entry oauth_endpoint_key oauth_no_security
  by simp

text \<open>
  Claim C10. In the loop over \<^verbatim>\<open>entities_data\<close> the nullable flag of a property is
  taken from the fourth component of its row exactly when that component is a boolean:
  the flag is then that boolean, and it is \<open>False\<close> for every other row. Required is the
  negation of nullable. So a fourth component \<open>False\<close> gives a property that is not
  nullable and is required, and a fourth component that is a format string gives a
  property that is never nullable and always required.
\<close>

theorem data_property_nullable:
  "(fourth_is_bool m \<longrightarrow>
      fourth m = Some (PBool (prop_nullable (data_property (name, type, description, m))))) \<and>
   (\<not> fourth_is_bool m \<longrightarrow> \<not> prop_nullable (data_property (name, type, description, m))) \<and>
   prop_nullable (data_property (name, type, description, m)) = (fourth m = Some (PBool True)) \<and>
   prop_required (data_property (name, type, description, m)) =
     (\<not> prop_nullable (data_property (name, type, description, m))) \<and>
   (fourth m = Some (PBool False) \<longrightarrow>
      \<not> prop_nullable (data_property (name, type, description, m)) \<and>
      prop_required (data_property (name, type, description, m))) \<and>
   (is_str (the (fourth m)) \<and> fourth m \<noteq> None \<longrightarrow>
      \<not> prop_nullable (data_property (name, type, description, m)) \<and>
      prop_required (data_property (name, type, description, m)))"
proof -
  have "data_nullable m = (fourth m = Some (PBool True))"
    by (auto simp: data_nullable_def split: option.splits pyval.splits)
  moreover have "is_str (the (fourth m)) \<Longrightarrow> fourth m \<noteq> None \<Longrightarrow> \<not> data_nullable m"
    by (auto simp: data_nullable_def split: option.splits pyval.splits)
  moreover have "fourth_is_bool m \<Longrightarrow> fourth m = Some (PBool (data_nullable m))"
    by (auto simp: data_nullable_def fourth_is_bool_def split: option.splits pyval.splits)
  moreover have "\<not> fourth_is_bool m \<Longrightarrow> \<not> data_nullable m"
    by (auto simp: data_nullable_def fourth_is_bool_def split: option.splits pyval.splits)
  ultimately show ?thesis
    by (auto simp: data_property_def)
qed

theorem data_property_nullable_witness:
  "fourth_is_bool (Fourth (PBool True)) \<and>
   fourth (Fourth (PBool True)) = Some (PBool True) \<and>
   prop_nullable (data_property (''category'', ''string'',
        ''Used for sorting custom emoji in the picker'', Fourth (PBool True))) \<and>
   \<not> prop_required (data_property (''category'', ''string'',
        ''Used for sorting custom emoji in the picker'', Fourth (PBool True))) \<and>
   fourth_is_bool (Fourth (PBool False)) \<and>
   fourth (Fourth (PBool False)) = Some (PBool False) \<and>
   \<not> prop_nullable (data_property (''vapid_key'', ''string'',
        ''Used for Push Streaming API'', Fourth (PBool False))) \<and>
   prop_required (data_property (''vapid_key'', ''string'',
        ''Used for Push Streaming API'', Fourth (PBool False))) \<and>
   \<not> fourth_is_bool (Fourth (PStr ''uri'')) \<and>
   is_str (the (fourth (Fourth (PStr ''uri'')))) \<and> fourth (Fourth (PStr ''uri'')) \<noteq> None \<and>
   \<not> prop_nullable (data_property (''url'', ''string'',
        ''A link to the custom emoji'', Fourth (PStr ''uri''))) \<and>
   prop_required (data_property (''url'', ''string'',
        ''A link to the custom emoji'', Fourth (PStr ''uri'')))"
  using data_property_nullable [of "Fourth (PBool True)" "''category''" "''string''"
          "''Used for sorting custom emoji in the picker''"]
    data_property_nullable [of "Fourth (PBool False)" "''vapid_key''" "''string''"
          "''Used for Push Streaming API''"]
    data_property_nullable [of "Fourth (PStr ''uri'')" "''url''" "''string''"
          "''A link to the custom emoji''"]
  by (simp add: fourth_is_bool_def)

lemma keys_schemas_of:
  "map fst (schemas_of f es sc) = first_occurrences (map fst sc) (map fst es)"
  by (induction es arbitrary: sc) (force simp: dict_set_keys)+

lemma keys_paths_of:
  "map fst (paths_of tp mo eps pp) =
     first_occurrences (map fst pp) (map (\<lambda>ep. tp (ep_path ep)) eps)"
  by (induction eps arbitrary: pp) (force simp: dict_set_keys add_operation_def)+

lemma keys_path_items: "map fst (path_items pp) = map fst pp"
  by (induction pp) (auto simp: path_items_def)

lemma key_order_assemble:
  "key_order tp g (assemble i s (path_items (paths_of tp mo (endpoints g) []))
                     (schemas_of f (entities g) []) ss)"
  using keys_schemas_of [of f "entities g" "[]"] keys_paths_of [of tp mo "endpoints g" "[]"]
  by (simp add: key_order_def keys_at_def assemble_def dict_keys_def keys_path_items)

text \<open>
  Claim C2. Two runs of \<^verbatim>\<open>generate_openapi_spec\<close> on the same tables give the same
  specification object, in the sample and in the comprehensive generator: the object is
  a function of the two tables, and the keys of its mappings stand in the order in which
  the loops insert them, the schemas in the order of the entity table and the paths in
  the order of their first endpoint.
\<close>

theorem generate_openapi_spec_deterministic:
  "(entities g = entities g' \<and> endpoints g = endpoints g' \<longrightarrow>
      sample_generate_openapi_spec g = sample_generate_openapi_spec g' \<and>
      comprehensive_generate_openapi_spec g = comprehensive_generate_openapi_spec g') \<and>
   (\<exists>spec. sample_generate_openapi_spec g = Inr spec \<and> key_order sample_openapi_path g spec) \<and>
   (\<exists>spec. comprehensive_generate_openapi_spec g = Inr spec \<and>
      key_order comprehensive_openapi_path g spec)"
  by (simp add: sample_generate_assemble comprehensive_generate_assemble key_order_assemble)

lemma sample_state_keys:
  "first_occurrences [] (map fst (entities sample_state)) =
     [''Account'', ''Status'', ''MediaAttachment'', ''Error'', ''CustomEmoji'', ''Field'',
      ''Notification'', ''Poll'', ''Tag'', ''Application'', ''Token'']"
  by code_simp

lemma sample_state_paths:
  "first_occurrences []
     (map (\<lambda>endpoint. sample_openapi_path (ep_path endpoint)) (endpoints sample_state)) =
     [''/api/v1/accounts/{id}'', ''/api/v1/accounts'', ''/api/v1/accounts/update_credentials'',
      ''/api/v1/statuses/{id}'', ''/api/v1/statuses'', ''/api/v1/timelines/home'',
      ''/api/v1/timelines/public'', ''/api/v1/notifications'', ''/api/v1/follow_requests'',
      ''/api/v1/follow_requests/{id}/authorize'', ''/api/v1/follow_requests/{id}/reject'',
      ''/api/v1/media'', ''/api/v1/polls/{id}'', ''/api/v1/polls/{id}/votes'',
      ''/api/v2/search'', ''/api/v1/instance'', ''/api/v1/apps'', ''/oauth/token'',
      ''/api/v1/streaming/user'']"
  by code_simp

lemma append_endpoint_entities: "entities (append_endpoint ep g) = entities g"
  by (simp add: append_endpoint_def)

lemma fold_append_endpoint_entities:
  "entities (fold (\<lambda>row. append_endpoint (f row)) rows g) = entities g"
  by (induction rows arbitrary: g) (simp_all add: append_endpoint_entities)

lemma create_comprehensive_endpoints_entities:
  "entities (create_comprehensive_endpoints g) = entities g"
proof -
  have "entities (fold (\<lambda>group g'.
             fold (\<lambda>row. append_endpoint (comprehensive_endpoint (fst group) row))
               (snd group) g') groups g) = entities g" for groups
    by (induction groups arbitrary: g) (simp_all add: fold_append_endpoint_entities)
  then show ?thesis by (simp add: create_comprehensive_endpoints_def)
qed

lemma comprehensive_state_keys:
  "first_occurrences [] (map fst (entities comprehensive_state)) =
     [''Account'', ''CredentialAccount'', ''Status'', ''MediaAttachment'', ''Notification'',
      ''CustomEmoji'', ''Field'', ''Mention'', ''Tag'', ''Poll'', ''PollOption'',
      ''Application'', ''Token'', ''Instance'', ''Error'', ''Context'', ''Conversation'']"
  unfolding comprehensive_state_def create_comprehensive_endpoints_entities
  by code_simp

theorem generate_openapi_spec_deterministic_witness:
  "entities sample_state = entities sample_state \<and>
   endpoints sample_state = endpoints sample_state \<and>
   sample_generate_openapi_spec sample_state = sample_generate_openapi_spec sample_state \<and>
   (\<exists>spec. sample_generate_openapi_spec sample_state = Inr spec \<and>
      keys_at [] spec = [''openapi'', ''info'', ''servers'', ''paths'', ''components''] \<and>
      keys_at [''components'', ''schemas''] spec =
        [''Account'', ''Status'', ''MediaAttachment'', ''Error'', ''CustomEmoji'', ''Field'',
         ''Notification'', ''Poll'', ''Tag'', ''Application'', ''Token''] \<and>
      keys_at [''paths''] spec =
        [''/api/v1/accounts/{id}'', ''/api/v1/accounts'', ''/api/v1/accounts/update_credentials'',
         ''/api/v1/statuses/{id}'', ''/api/v1/statuses'', ''/api/v1/timelines/home'',
         ''/api/v1/timelines/public'', ''/api/v1/notifications'', ''/api/v1/follow_requests'',
         ''/api/v1/follow_requests/{id}/authorize'', ''/api/v1/follow_requests/{id}/reject'',
         ''/api/v1/media'', ''/api/v1/polls/{id}'', ''/api/v1/polls/{id}/votes'',
         ''/api/v2/search'', ''/api/v1/instance'', ''/api/v1/apps'', ''/oauth/token'',
         ''/api/v1/streaming/user'']) \<and>
   comprehensive_generate_openapi_spec comprehensive_state
     = comprehensive_generate_openapi_spec comprehensive_state \<and>
   (\<exists>spec. comprehensive_generate_openapi_spec comprehensive_state = Inr spec \<and>
      keys_at [] spec = [''openapi'', ''info'', ''servers'', ''paths'', ''components''] \<and>
      keys_at [''components'', ''schemas''] spec =
        [''Account'', ''CredentialAccount'', ''Status'', ''MediaAttachment'', ''Notification'',
         ''CustomEmoji'', ''Field'', ''Mention'', ''Tag'', ''Poll'', ''PollOption'',
         ''Application'', ''Token'', ''Instance'', ''Error'', ''Context'', ''Conversation''])"
  using generate_openapi_spec_deterministic [of sample_state sample_state]
    generate_openapi_spec_deterministic [of comprehensive_state comprehensive_state]
  by (auto simp: key_order_def sample_state_keys sample_state_paths comprehensive_state_keys)

section \<open>Properties of the scraping script and of the error handling\<close>

lemma fetch_file_content_Some:
  "fetch_file_content env path = (logs, Some text) \<Longrightarrow>
     \<exists>data content.
        get_json env (MASTODON_DOCS_BASE_URL @ ''/'' @ path) = Inr data \<and>
        py_get data ''encoding'' PNone = Inr (PStr ''base64'') \<and>
        py_getitem data ''content'' = Inr content \<and>
        b64decode_utf8 env content = Inr text"
  by (auto simp: fetch_file_content_def fetch_try_def split: sum.splits if_splits)

lemma fetch_file_content_other:
  "get_json env (MASTODON_DOCS_BASE_URL @ ''/'' @ path) = Inr data \<Longrightarrow>
   py_get data ''encoding'' PNone \<noteq> Inr (PStr ''base64'') \<Longrightarrow>
     snd (fetch_file_content env path) = None"
  by (auto simp: fetch_file_content_def fetch_try_def split: sum.splits)

text \<open>
  Claim C7. \<^verbatim>\<open>fetch_file_content\<close> returns a text only when the answer of the host
  declares the encoding \<open>base64\<close>, and the text is then the decoded content; for an
  answer with another encoding, or with none, it returns \<open>None\<close>.
\<close>

theorem fetch_file_content_base64:
  "(fetch_file_content env path = (logs, Some text) \<longrightarrow>
      (\<exists>data content.
          get_json env (MASTODON_DOCS_BASE_URL @ ''/'' @ path) = Inr data \<and>
          py_get data ''encoding'' PNone = Inr (PStr ''base64'') \<and>
          py_getitem data ''content'' = Inr content \<and>
          b64decode_utf8 env content = Inr text)) \<and>
   (get_json env (MASTODON_DOCS_BASE_URL @ ''/'' @ path) = Inr data \<and>
    py_get data ''encoding'' PNone \<noteq> Inr (PStr ''base64'') \<longrightarrow>
      snd (fetch_file_content env path) = None)"
  using fetch_file_content_Some [of env path logs "text"]
    fetch_file_content_other [of env path data]
  by blast

lemma get_json_answering: "get_json (answering_env data) url = Inr data"
  by (simp add: get_json_def answering_env_def)


theorem fetch_file_content_base64_witness:
  "fetch_file_content
     (answering_env (PDict [(''encoding'', PStr ''base64''), (''content'', PStr ''LS0t'')]))
     ''content/en/entities/Account.md'' = ([], Some ''---'') \<and>
   (\<exists>data content.
      get_json
        (answering_env (PDict [(''encoding'', PStr ''base64''), (''content'', PStr ''LS0t'')]))
        (MASTODON_DOCS_BASE_URL @ ''/'' @ ''content/en/entities/Account.md'') = Inr data \<and>
      py_get data ''encoding'' PNone = Inr (PStr ''base64'') \<and>
      py_getitem data ''content'' = Inr content \<and>
      b64decode_utf8
        (answering_env (PDict [(''encoding'', PStr ''base64''), (''content'', PStr ''LS0t'')]))
        content = Inr ''---'') \<and>
   get_json (answering_env (PDict [(''encoding'', PStr ''utf-8''), (''content'', PStr ''---'')]))
     (MASTODON_DOCS_BASE_URL @ ''/'' @ ''content/en/entities/Account.md'')
     = Inr (PDict [(''encoding'', PStr ''utf-8''), (''content'', PStr ''---'')]) \<and>
   py_get (PDict [(''encoding'', PStr ''utf-8''), (''content'', PStr ''---'')]) ''encoding'' PNone
     \<noteq> Inr (PStr ''base64'') \<and>
   snd (fetch_file_content
          (answering_env (PDict [(''encoding'', PStr ''utf-8''), (''content'', PStr ''---'')]))
          ''content/en/entities/Account.md'') = None"
proof -
  let ?e1 = "answering_env (PDict [(''encoding'', PStr ''base64''), (''content'', PStr ''LS0t'')])"
  let ?d2 = "PDict [(''encoding'', PStr ''utf-8''), (''content'', PStr ''---'')]"
  let ?p = "''content/en/entities/Account.md''"
  have f1: "fetch_file_content ?e1 ?p = ([], Some ''---'')"
    by (simp add: fetch_file_content_def fetch_try_def get_json_answering)
       (simp add: answering_env_def)
  have g2: "get_json (answering_env ?d2) (MASTODON_DOCS_BASE_URL @ ''/'' @ ?p) = Inr ?d2"
    by (rule get_json_answering)
  have n2: "py_get ?d2 ''encoding'' PNone \<noteq> Inr (PStr ''base64'')"
    by simp
  from fetch_file_content_base64 [of ?e1 ?p "[]" "''---''" PNone]
    fetch_file_content_base64 [of "answering_env ?d2" ?p "[]" "[]" ?d2] f1 g2 n2
  show ?thesis by blast
qed
























end
